theory Spec2Isabelle
  imports Complex_Main "HOL-Library.Multiset" "HOL-Library.Char_ord"
    "HOL-Library.List_Lexorder" "HOL-Library.Product_Lexorder"
begin

section \<open>Python values, exceptions and the pandas data model\<close>

text \<open>
  The analysis engine of \<^verbatim>\<open>src/core/analysis.py\<close> (class \<^verbatim>\<open>DeepAnalysisEngine\<close>).
  Python floats are read as the reals they denote and compared as such; where the engine
  subtracts floats the rounded subtraction is a parameter. Python ints are \<open>int\<close>, a
  raised exception is the left summand of a sum type. The fitting and testing routines of scikit-learn, scipy
  and shap are parameters of the model: each is a function that returns a value or
  raises.
\<close>

datatype exc = IndexError | KeyError | ValueError | LibraryError string

datatype dtype = Number | Object | Category | Other

datatype cell = NaN | Num real | Str string

text \<open>
  A column: its label, its dtype and its values. For a column of category dtype
  \<open>col_categories\<close> lists its categories in category order (distinct, none missing); it
  is not read for another dtype.
\<close>

record column =
  col_name :: string
  col_dtype :: dtype
  col_cells :: "cell list"
  col_categories :: "cell list"

text \<open>
  A frame is its columns in order and its number of rows (\<^verbatim>\<open>len(df)\<close>). Column labels
  are unique within a frame, so a loop over labels that reads \<^verbatim>\<open>df[label]\<close> is a loop
  over the columns.
\<close>

record dataframe =
  cols :: "column list"
  nrows :: nat

definition columns :: "dataframe \<Rightarrow> string list" where
  "columns df = map col_name (cols df)"

definition len :: "dataframe \<Rightarrow> int" where
  "len df = int (nrows df)"

definition select_dtypes :: "dtype list \<Rightarrow> dataframe \<Rightarrow> dataframe" where
  "select_dtypes include df = df\<lparr>cols := filter (\<lambda>c. col_dtype c \<in> set include) (cols df)\<rparr>"

text \<open>\<^verbatim>\<open>df[names]\<close> for a list of labels taken from \<^verbatim>\<open>df.columns\<close> itself.\<close>

definition getitem_cols :: "dataframe \<Rightarrow> string list \<Rightarrow> dataframe" where
  "getitem_cols df names =
     df\<lparr>cols := concat (map (\<lambda>n. filter (\<lambda>c. col_name c = n) (cols df)) names)\<rparr>"

text \<open>\<^verbatim>\<open>df[name]\<close> for one label: KeyError when the label is absent.\<close>

definition getitem_col :: "dataframe \<Rightarrow> string \<Rightarrow> exc + column" where
  "getitem_col df n =
     (case find (\<lambda>c. col_name c = n) (cols df) of None \<Rightarrow> Inl KeyError | Some c \<Rightarrow> Inr c)"

definition numbers :: "cell list \<Rightarrow> real list" where
  "numbers cs = concat (map (\<lambda>c. case c of Num x \<Rightarrow> [x] | _ \<Rightarrow> []) cs)"

text \<open>The column mean skips missing values; it is itself missing for an all-missing column.\<close>

definition mean :: "cell list \<Rightarrow> cell" where
  "mean cs = (let xs = numbers cs in
     if xs = [] then NaN else Num (sum_list xs / real (length xs)))"

definition fill_cell :: "cell \<Rightarrow> cell \<Rightarrow> cell" where
  "fill_cell m c = (case c of NaN \<Rightarrow> m | _ \<Rightarrow> c)"

text \<open>\<^verbatim>\<open>X.fillna(X.mean())\<close>: a new frame, every missing cell replaced by its column's mean.\<close>

definition fillna_mean :: "dataframe \<Rightarrow> dataframe" where
  "fillna_mean X =
     X\<lparr>cols := map (\<lambda>c. c\<lparr>col_cells := map (fill_cell (mean (col_cells c))) (col_cells c)\<rparr>) (cols X)\<rparr>"

text \<open>\<^verbatim>\<open>Series.dropna()\<close> and \<^verbatim>\<open>Series.nunique()\<close> (missing values are not counted).\<close>

definition dropna :: "cell list \<Rightarrow> cell list" where
  "dropna cs = filter (\<lambda>c. c \<noteq> NaN) cs"

definition nunique :: "cell list \<Rightarrow> nat" where
  "nunique cs = length (remdups (dropna cs))"

text \<open>\<^verbatim>\<open>pd.Series(xs).value_counts().to_dict()\<close>: each value that occurs, with its count.\<close>

definition value_counts :: "int list \<Rightarrow> (int \<rightharpoonup> nat)" where
  "value_counts xs = (\<lambda>l. if l \<in> set xs then Some (count_list xs l) else None)"

subsection \<open>Python ranges and numpy helpers\<close>

text \<open>\<^verbatim>\<open>range(a, b)\<close>: the upper bound is excluded.\<close>

definition py_range :: "int \<Rightarrow> int \<Rightarrow> int list" where
  "py_range a b = [a..b - 1]"

text \<open>\<^verbatim>\<open>r[i]\<close>: a negative index counts from the end, IndexError out of range.\<close>

definition range_getitem :: "int list \<Rightarrow> int \<Rightarrow> exc + int" where
  "range_getitem r i =
     (let n = int (length r); j = (if i < 0 then i + n else i)
      in if 0 \<le> j \<and> j < n then Inr (r ! nat j) else Inl IndexError)"

text \<open>
  \<^verbatim>\<open>np.diff\<close>: consecutive differences, one element shorter (empty stays empty). The
  subtraction is that of float64 numbers, which rounds; it is the parameter \<open>sub\<close>.
\<close>

fun np_diff :: "(real \<Rightarrow> real \<Rightarrow> real) \<Rightarrow> real list \<Rightarrow> real list" where
  "np_diff sub (x # y # ys) = sub y x # np_diff sub (y # ys)"
| "np_diff sub _ = []"

text \<open>\<^verbatim>\<open>np.argmax\<close>: the first position of the largest element; ValueError on an empty array.\<close>

fun argmax_from :: "real \<Rightarrow> nat \<Rightarrow> nat \<Rightarrow> real list \<Rightarrow> nat" where
  "argmax_from best bi i [] = bi"
| "argmax_from best bi i (x # xs) =
     (if best < x then argmax_from x i (Suc i) xs else argmax_from best bi (Suc i) xs)"

definition np_argmax :: "real list \<Rightarrow> exc + nat" where
  "np_argmax xs = (case xs of [] \<Rightarrow> Inl ValueError | x # rest \<Rightarrow> Inr (argmax_from x 0 1 rest))"

section \<open>Results of the analysis operations\<close>

record kmeans_report =
  km_n_clusters :: int
  km_labels :: "int list"
  km_centroids :: "real list list"
  km_inertia :: real
  km_cluster_sizes :: "int \<rightharpoonup> nat"

record dbscan_report =
  db_labels :: "int list"
  db_n_clusters :: int
  db_n_noise_points :: nat
  db_cluster_sizes :: "int \<rightharpoonup> nat"

record importance_row =
  feature :: string
  importance :: real

record shap_row =
  shap_feature :: string
  shap_importance :: real

datatype performance =
  ClassificationPerformance "(string \<times> real) list" real
| RegressionPerformance real real real

record importance_report =
  fi_task_type :: string
  fi_performance :: performance
  fi_feature_importance :: "importance_row list"
  fi_shap_importance :: "shap_row list"
  fi_top_features :: "string list"

record distribution_test =
  shapiro_wilk_stat :: real
  shapiro_wilk_p_value :: real
  is_normal :: bool
  skewness :: real
  kurtosis :: real

record strong_correlation =
  variable1 :: string
  variable2 :: string
  correlation :: real
  strength :: string

datatype test_entry =
  TestEntry (test: string) (statistic: real) (p_value: real) (significant: bool) (groups_count: nat)
| TestError string

text \<open>A correlation matrix: its column labels and its rows; \<open>None\<close> is a NaN coefficient.\<close>

record corr_frame =
  corr_columns :: "string list"
  corr_rows :: "real option list list"

record statistical_report =
  descriptive_stats :: "(string \<times> (string \<times> real) list) list"
  distribution_tests :: "string \<rightharpoonup> distribution_test"
  correlations :: "(corr_frame \<times> strong_correlation list) option"
  hypothesis_tests :: "string \<rightharpoonup> test_entry"

datatype analysis_result =
  ErrorResult string
| StatisticalResult statistical_report
| ClusteringResult kmeans_report dbscan_report
| FeatureImportanceResult importance_report

section \<open>The engine's state and the object store\<close>

text \<open>
  A fitted random forest: the importances the engine reads from it, and an opaque handle
  for the trees that the prediction and attribution routines use.
\<close>

record forest =
  feature_importances :: "real list"
  forest_handle :: nat

text \<open>
  DataFrame objects live in a store, addressed by number; a caller hands the engine the
  address of its Dataset. \<open>analysis_results\<close> and \<open>models\<close> are the two attributes of
  the engine object.
\<close>

record world =
  heap :: "nat \<Rightarrow> dataframe"
  next_free :: nat
  analysis_results :: "string \<rightharpoonup> analysis_result"
  models :: "string \<rightharpoonup> forest"

text \<open>A pandas call that returns a new DataFrame puts it at a fresh address.\<close>

definition new_frame :: "dataframe \<Rightarrow> world \<Rightarrow> nat \<times> world" where
  "new_frame d w = (next_free w, w\<lparr>heap := (heap w)(next_free w := d), next_free := Suc (next_free w)\<rparr>)"

section \<open>Cluster analysis\<close>

record kmeans =
  fitted_labels :: "int list"
  fitted_cluster_centers :: "real list list"
  fitted_inertia :: real

text \<open>
  The library routines behind cluster analysis:
  \<^verbatim>\<open>KMeans(n_clusters=k, random_state=42, n_init=10).fit(X)\<close>,
  \<^verbatim>\<open>DBSCAN(eps=0.5, min_samples=5).fit_predict(X)\<close>, and the subtraction of float64
  numbers as numpy computes it.
\<close>

record cluster_lib =
  KMeans_fit :: "int \<Rightarrow> dataframe \<Rightarrow> exc + kmeans"
  DBSCAN_fit_predict :: "dataframe \<Rightarrow> exc + int list"
  np_subtract :: "real \<Rightarrow> real \<Rightarrow> real"

definition find_elbow :: "cluster_lib \<Rightarrow> int list \<Rightarrow> real list \<Rightarrow> exc + int" where
  "find_elbow sk k_range inertias =
     (if length inertias < 3 then range_getitem k_range 0
      else
        let diffs = np_diff (np_subtract sk) inertias;
            diffs2 = np_diff (np_subtract sk) diffs
        in if length diffs2 > 0 then
             (case np_argmax diffs2 of
                Inl e \<Rightarrow> Inl e
              | Inr a \<Rightarrow>
                  let elbow_idx = int a + 2
                  in range_getitem k_range (min elbow_idx (int (length k_range) - 1)))
           else range_getitem k_range (int (length k_range) div 2))"

text \<open>The sweep \<^verbatim>\<open>for k in K_range\<close>: one fit per candidate, its inertia appended.\<close>

fun elbow_sweep :: "cluster_lib \<Rightarrow> dataframe \<Rightarrow> int list \<Rightarrow> real list \<Rightarrow> exc + real list" where
  "elbow_sweep sk X [] inertias = Inr inertias"
| "elbow_sweep sk X (k # ks) inertias =
     (case KMeans_fit sk k X of
        Inl e \<Rightarrow> Inl e
      | Inr fitted \<Rightarrow> elbow_sweep sk X ks (inertias @ [fitted_inertia fitted]))"

definition K_range :: "dataframe \<Rightarrow> int list" where
  "K_range X = py_range 2 (min 11 (len X))"

text \<open>The block \<^verbatim>\<open>if n_clusters is None: ...\<close>.\<close>

definition auto_n_clusters :: "cluster_lib \<Rightarrow> dataframe \<Rightarrow> int option \<Rightarrow> exc + int" where
  "auto_n_clusters sk X n_clusters =
     (case n_clusters of
        Some n \<Rightarrow> Inr n
      | None \<Rightarrow>
          (case elbow_sweep sk X (K_range X) [] of
             Inl e \<Rightarrow> Inl e
           | Inr inertias \<Rightarrow> find_elbow sk (K_range X) inertias))"

definition dbscan_summary :: "int list \<Rightarrow> dbscan_report" where
  "dbscan_summary dbscan_labels =
     \<lparr>db_labels = dbscan_labels,
      db_n_clusters = int (card (set dbscan_labels)) - (if - 1 \<in> set dbscan_labels then 1 else 0),
      db_n_noise_points = count_list dbscan_labels (- 1),
      db_cluster_sizes = value_counts (filter (\<lambda>l. l \<noteq> - 1) dbscan_labels)\<rparr>"

definition clustering_analysis ::
  "cluster_lib \<Rightarrow> nat \<Rightarrow> int option \<Rightarrow> world \<Rightarrow> (exc + analysis_result) \<times> world" where
  "clustering_analysis sk df n_clusters self =
     (let numerical_cols = columns (select_dtypes [Number] (heap self df)) in
      if length numerical_cols < 2
      then (Inr (ErrorResult ''Need at least 2 numerical columns for clustering''), self)
      else
        let (X, s) = new_frame (fillna_mean (getitem_cols (heap self df) numerical_cols)) self in
        case auto_n_clusters sk (heap s X) n_clusters of
          Inl e \<Rightarrow> (Inl e, s)
        | Inr n \<Rightarrow>
            (case KMeans_fit sk n (heap s X) of
               Inl e \<Rightarrow> (Inl e, s)
             | Inr fitted \<Rightarrow>
                 (case DBSCAN_fit_predict sk (heap s X) of
                    Inl e \<Rightarrow> (Inl e, s)
                  | Inr dbscan_labels \<Rightarrow>
                      let results = ClusteringResult
                            \<lparr>km_n_clusters = n,
                             km_labels = fitted_labels fitted,
                             km_centroids = fitted_cluster_centers fitted,
                             km_inertia = fitted_inertia fitted,
                             km_cluster_sizes = value_counts (fitted_labels fitted)\<rparr>
                            (dbscan_summary dbscan_labels)
                      in (Inr results,
                          s\<lparr>analysis_results := (analysis_results s)(''clustering'' \<mapsto> results)\<rparr>))))"

section \<open>Statistical analysis\<close>

subsection \<open>Strong correlations\<close>

text \<open>\<^verbatim>\<open>corr_matrix.iloc[i, j]\<close>: positional access, IndexError outside the matrix.\<close>

definition iloc :: "corr_frame \<Rightarrow> nat \<Rightarrow> nat \<Rightarrow> exc + real option" where
  "iloc m i j =
     (if i < length (corr_rows m) \<and> j < length (corr_rows m ! i)
      then Inr (corr_rows m ! i ! j) else Inl IndexError)"

text \<open>
  The inner loop \<^verbatim>\<open>for j in range(i+1, len(corr_matrix.columns))\<close>. A NaN coefficient
  fails the comparison \<^verbatim>\<open>abs(corr_value) >= threshold\<close>. The labels
  \<^verbatim>\<open>columns[i]\<close> and \<^verbatim>\<open>columns[j]\<close> are read below the loop bound.
\<close>

fun strong_row ::
  "corr_frame \<Rightarrow> real \<Rightarrow> nat \<Rightarrow> nat list \<Rightarrow> strong_correlation list \<Rightarrow> exc + strong_correlation list" where
  "strong_row m threshold i [] strong_corrs = Inr strong_corrs"
| "strong_row m threshold i (j # js) strong_corrs =
     (case iloc m i j of
        Inl e \<Rightarrow> Inl e
      | Inr None \<Rightarrow> strong_row m threshold i js strong_corrs
      | Inr (Some corr_value) \<Rightarrow>
          strong_row m threshold i js
            (if \<bar>corr_value\<bar> \<ge> threshold
             then strong_corrs @
               [\<lparr>variable1 = corr_columns m ! i,
                 variable2 = corr_columns m ! j,
                 correlation = corr_value,
                 strength = (if \<bar>corr_value\<bar> \<ge> 9 / 10 then ''very strong'' else ''strong'')\<rparr>]
             else strong_corrs))"

text \<open>The outer loop \<^verbatim>\<open>for i in range(len(corr_matrix.columns))\<close>.\<close>

fun strong_rows ::
  "corr_frame \<Rightarrow> real \<Rightarrow> nat list \<Rightarrow> strong_correlation list \<Rightarrow> exc + strong_correlation list" where
  "strong_rows m threshold [] strong_corrs = Inr strong_corrs"
| "strong_rows m threshold (i # is) strong_corrs =
     (case strong_row m threshold i [Suc i..<length (corr_columns m)] strong_corrs of
        Inl e \<Rightarrow> Inl e
      | Inr strong_corrs' \<Rightarrow> strong_rows m threshold is strong_corrs')"

text \<open>
  \<^verbatim>\<open>sorted(xs, key=f, reverse=True)\<close>: descending by key, elements with equal keys in
  their original order.
\<close>

definition sorted_reverse :: "('a \<Rightarrow> real) \<Rightarrow> 'a list \<Rightarrow> 'a list" where
  "sorted_reverse f xs = sort_key (\<lambda>x. - f x) xs"

definition find_strong_correlations :: "corr_frame \<Rightarrow> real \<Rightarrow> exc + strong_correlation list" where
  "find_strong_correlations corr_matrix threshold =
     (case strong_rows corr_matrix threshold [0..<length (corr_columns corr_matrix)] [] of
        Inl e \<Rightarrow> Inl e
      | Inr strong_corrs \<Rightarrow> Inr (sorted_reverse (\<lambda>x. \<bar>correlation x\<bar>) strong_corrs))"

subsection \<open>Hypothesis tests\<close>

text \<open>
  The routines of scipy.stats and the pandas summaries that \<^verbatim>\<open>statistical_analysis\<close>
  calls. \<open>sample n xs\<close> is the draw \<^verbatim>\<open>Series.sample(n)\<close>.
\<close>

record stats_lib =
  ttest_ind :: "real list \<Rightarrow> real list \<Rightarrow> exc + real \<times> real"
  f_oneway :: "real list list \<Rightarrow> exc + real \<times> real"
  shapiro :: "real list \<Rightarrow> exc + real \<times> real"
  sample :: "nat \<Rightarrow> real list \<Rightarrow> real list"
  skew :: "real list \<Rightarrow> real"
  kurt :: "real list \<Rightarrow> real"
  describe :: "dataframe \<Rightarrow> exc + (string \<times> (string \<times> real) list) list"
  corr :: "dataframe \<Rightarrow> corr_frame"

fun str :: "exc \<Rightarrow> string" where
  "str IndexError = ''index out of range''"
| "str KeyError = ''key not found''"
| "str ValueError = ''invalid value''"
| "str (LibraryError msg) = msg"

text \<open>
  \<^verbatim>\<open>df.groupby(cat_col)\<close> yields its groups in key order. For a column of category
  dtype the keys are its categories, in category order (a category that no row has gives an
  empty group). For another dtype the keys are the distinct non-missing values, sorted;
  numbers sort before strings here.
\<close>

definition cell_key :: "cell \<Rightarrow> nat \<times> real \<times> string" where
  "cell_key c = (case c of NaN \<Rightarrow> (2, 0, []) | Num x \<Rightarrow> (0, x, []) | Str s \<Rightarrow> (1, 0, s))"

definition group_keys :: "column \<Rightarrow> cell list" where
  "group_keys c =
     (if col_dtype c = Category then col_categories c
      else sort_key cell_key (remdups (dropna (col_cells c))))"

text \<open>\<^verbatim>\<open>[group[num_col].dropna() for name, group in df.groupby(cat_col)]\<close>\<close>

definition grouped_values :: "column \<Rightarrow> column \<Rightarrow> real list list" where
  "grouped_values cat_col num_col =
     map (\<lambda>k. numbers (map snd (filter (\<lambda>(c, v). c = k) (zip (col_cells cat_col) (col_cells num_col)))))
       (group_keys cat_col)"

text \<open>The body of the two loops, for one categorical and one numerical column.\<close>

definition test_pair :: "stats_lib \<Rightarrow> column \<Rightarrow> column \<Rightarrow> test_entry option" where
  "test_pair st cat_col num_col =
     (let groups = filter (\<lambda>g. length g > 1) (grouped_values cat_col num_col) in
      if length groups \<ge> 2 then
        (case (if length groups = 2
               then (case ttest_ind st (groups ! 0) (groups ! 1) of
                       Inl e \<Rightarrow> Inl e | Inr r \<Rightarrow> Inr (r, ''t-test''))
               else (case f_oneway st groups of
                       Inl e \<Rightarrow> Inl e | Inr r \<Rightarrow> Inr (r, ''ANOVA''))) of
           Inl e \<Rightarrow> Some (TestError (str e))
         | Inr ((stat, p_val), test_name) \<Rightarrow>
             Some (TestEntry test_name stat p_val (p_val < 5 / 100) (length groups)))
      else None)"

definition pair_key :: "column \<Rightarrow> column \<Rightarrow> string" where
  "pair_key cat_col num_col = col_name cat_col @ ''_vs_'' @ col_name num_col"

fun tests_for_cat ::
  "stats_lib \<Rightarrow> column \<Rightarrow> column list \<Rightarrow> (string \<rightharpoonup> test_entry) \<Rightarrow> (string \<rightharpoonup> test_entry)" where
  "tests_for_cat st cat_col [] tests = tests"
| "tests_for_cat st cat_col (num_col # rest) tests =
     tests_for_cat st cat_col rest
       (case test_pair st cat_col num_col of
          None \<Rightarrow> tests
        | Some entry \<Rightarrow> tests(pair_key cat_col num_col \<mapsto> entry))"

fun tests_for_cats ::
  "stats_lib \<Rightarrow> column list \<Rightarrow> column list \<Rightarrow> (string \<rightharpoonup> test_entry) \<Rightarrow> (string \<rightharpoonup> test_entry)" where
  "tests_for_cats st [] numerical_cols tests = tests"
| "tests_for_cats st (cat_col # rest) numerical_cols tests =
     tests_for_cats st rest numerical_cols (tests_for_cat st cat_col numerical_cols tests)"

definition perform_hypothesis_tests :: "stats_lib \<Rightarrow> dataframe \<Rightarrow> (string \<rightharpoonup> test_entry)" where
  "perform_hypothesis_tests st df =
     (let numerical_cols = cols (select_dtypes [Number] df);
          categorical_cols = cols (select_dtypes [Object, Category] df)
      in tests_for_cats st categorical_cols numerical_cols Map.empty)"

subsection \<open>The operation\<close>

text \<open>The loop over the numerical columns that fills \<^verbatim>\<open>results['distribution_tests']\<close>.\<close>

fun distribution_loop ::
  "stats_lib \<Rightarrow> column list \<Rightarrow> (string \<rightharpoonup> distribution_test) \<Rightarrow> exc + (string \<rightharpoonup> distribution_test)" where
  "distribution_loop st [] tests = Inr tests"
| "distribution_loop st (c # rest) tests =
     (if nunique (col_cells c) > 1 then
        (let xs = numbers (col_cells c) in
         case shapiro st (sample st (min 5000 (length xs)) xs) of
           Inl e \<Rightarrow> Inl e
         | Inr (stat, p_val) \<Rightarrow>
             distribution_loop st rest
               (tests(col_name c \<mapsto>
                  \<lparr>shapiro_wilk_stat = stat,
                   shapiro_wilk_p_value = p_val,
                   is_normal = (p_val > 5 / 100),
                   skewness = skew st xs,
                   kurtosis = kurt st xs\<rparr>)))
      else distribution_loop st rest tests)"

definition statistical_analysis ::
  "stats_lib \<Rightarrow> nat \<Rightarrow> world \<Rightarrow> (exc + analysis_result) \<times> world" where
  "statistical_analysis st df self =
     (let numerical = select_dtypes [Number] (heap self df);
          numerical_cols = columns numerical
      in case describe st (getitem_cols (heap self df) numerical_cols) of
           Inl e \<Rightarrow> (Inl e, self)
         | Inr stats \<Rightarrow>
             (case distribution_loop st (cols numerical) Map.empty of
                Inl e \<Rightarrow> (Inl e, self)
              | Inr dist_tests \<Rightarrow>
                  (case (if length numerical_cols > 1
                         then (let correlation_matrix = corr st (getitem_cols (heap self df) numerical_cols)
                               in case find_strong_correlations correlation_matrix (7 / 10) of
                                    Inl e \<Rightarrow> Inl e
                                  | Inr strong \<Rightarrow> Inr (Some (correlation_matrix, strong)))
                         else Inr None) of
                     Inl e \<Rightarrow> (Inl e, self)
                   | Inr corr_part \<Rightarrow>
                       let results = StatisticalResult
                             \<lparr>descriptive_stats = stats,
                              distribution_tests = dist_tests,
                              correlations = corr_part,
                              hypothesis_tests = perform_hypothesis_tests st (heap self df)\<rparr>
                       in (Inr results,
                           self\<lparr>analysis_results := (analysis_results self)(''statistical'' \<mapsto> results)\<rparr>))))"

section \<open>Feature importance\<close>

record split =
  X_train :: dataframe
  X_test :: dataframe
  y_train :: "cell list"
  y_test :: "cell list"

text \<open>
  The routines of pandas, scikit-learn and shap behind \<^verbatim>\<open>feature_importance_analysis\<close>:
  \<^item> \<open>get_dummies\<close>: \<^verbatim>\<open>pd.get_dummies(X, drop_first=True)\<close>;
  \<^item> \<open>train_test_split\<close>: the 80/20 split with \<^verbatim>\<open>random_state=42\<close>;
  \<^item> \<open>classifier_fit\<close>, \<open>regressor_fit\<close>: a random forest of 100 trees fitted on the
    training part;
  \<^item> \<open>classification_scores\<close>: the classification report and the accuracy on the held-out
    part; \<open>regression_scores\<close>: the mean squared error and the coefficient of determination;
  \<^item> \<open>shap_mean_abs\<close>: the statements of the \<^verbatim>\<open>try\<close> block up to
    \<^verbatim>\<open>np.abs(shap_values).mean(0)\<close>, which raise or give one number per feature.
\<close>

record forest_lib =
  get_dummies :: "dataframe \<Rightarrow> dataframe"
  train_test_split :: "dataframe \<Rightarrow> column \<Rightarrow> exc + split"
  classifier_fit :: "dataframe \<Rightarrow> cell list \<Rightarrow> exc + forest"
  regressor_fit :: "dataframe \<Rightarrow> cell list \<Rightarrow> exc + forest"
  classification_scores :: "forest \<Rightarrow> split \<Rightarrow> exc + (string \<times> real) list \<times> real"
  regression_scores :: "forest \<Rightarrow> split \<Rightarrow> exc + real \<times> real"
  shap_mean_abs :: "string \<Rightarrow> forest \<Rightarrow> dataframe \<Rightarrow> exc + real list"

text \<open>\<^verbatim>\<open>df.drop(columns=[target_column])\<close>: a new frame without the column.\<close>

definition drop_columns :: "dataframe \<Rightarrow> string list \<Rightarrow> dataframe" where
  "drop_columns df names = df\<lparr>cols := filter (\<lambda>c. col_name c \<notin> set names) (cols df)\<rparr>"

text \<open>The block \<^verbatim>\<open>if task_type == 'auto': ...\<close>.\<close>

definition infer_task_type :: "column \<Rightarrow> string \<Rightarrow> string" where
  "infer_task_type y task_type =
     (if task_type = ''auto''
      then (if col_dtype y = Object \<or> nunique (col_cells y) < 10
            then ''classification'' else ''regression'')
      else task_type)"

text \<open>The block \<^verbatim>\<open>if task_type == 'classification': ... else: ...\<close> (fit and score).\<close>

definition train_model :: "forest_lib \<Rightarrow> string \<Rightarrow> split \<Rightarrow> exc + forest \<times> performance" where
  "train_model ml task_type sp =
     (if task_type = ''classification'' then
        (case classifier_fit ml (X_train sp) (y_train sp) of
           Inl e \<Rightarrow> Inl e
         | Inr model \<Rightarrow>
             (case classification_scores ml model sp of
                Inl e \<Rightarrow> Inl e
              | Inr (report, accuracy) \<Rightarrow> Inr (model, ClassificationPerformance report accuracy)))
      else
        (case regressor_fit ml (X_train sp) (y_train sp) of
           Inl e \<Rightarrow> Inl e
         | Inr model \<Rightarrow>
             (case regression_scores ml model sp of
                Inl e \<Rightarrow> Inl e
              | Inr (mse, r2) \<Rightarrow> Inr (model, RegressionPerformance mse (sqrt mse) r2))))"

text \<open>
  \<^verbatim>\<open>pd.DataFrame({'feature': names, col: values}).sort_values(col, ascending=False)\<close>:
  ValueError when the two arrays differ in length, else the rows by descending value. Rows
  of equal value keep their order here; pandas may order such ties otherwise, though in the
  same way whenever it sorts the same rows.
\<close>

definition ranked_frame :: "string list \<Rightarrow> real list \<Rightarrow> exc + (string \<times> real) list" where
  "ranked_frame names vals =
     (if length names = length vals
      then Inr (sort_key (\<lambda>r. - snd r) (zip names vals))
      else Inl ValueError)"

text \<open>
  The body of the \<^verbatim>\<open>try\<close> block: the attribution, then the frame of its
  mean absolute values; either statement may raise.
\<close>

definition shap_try ::
  "forest_lib \<Rightarrow> string \<Rightarrow> forest \<Rightarrow> split \<Rightarrow> string list \<Rightarrow> exc + (string \<times> real) list" where
  "shap_try ml task_type model sp names =
     (case shap_mean_abs ml task_type model (X_test sp) of
        Inl e \<Rightarrow> Inl e
      | Inr vals \<Rightarrow> ranked_frame names vals)"

text \<open>
  \<^verbatim>\<open>try: ... except Exception: ...\<close>: whatever the body raises, the handler builds
  the frame from \<^verbatim>\<open>model.feature_importances_\<close> instead.
\<close>

definition shap_block ::
  "forest_lib \<Rightarrow> string \<Rightarrow> forest \<Rightarrow> split \<Rightarrow> string list \<Rightarrow> exc + (string \<times> real) list" where
  "shap_block ml task_type model sp names =
     (case shap_try ml task_type model sp names of
        Inl e \<Rightarrow> ranked_frame names (feature_importances model)
      | Inr ranked \<Rightarrow> Inr ranked)"

definition feature_importance_analysis ::
  "forest_lib \<Rightarrow> nat \<Rightarrow> string \<Rightarrow> string \<Rightarrow> world \<Rightarrow> (exc + analysis_result) \<times> world" where
  "feature_importance_analysis ml df target_column task_type self =
     (if target_column \<notin> set (columns (heap self df))
      then (Inr (ErrorResult (''Target column '' @ target_column @ '' not found'')), self)
      else
        let (X, s1) = new_frame (drop_columns (heap self df) [target_column]) self in
        case getitem_col (heap s1 df) target_column of
          Inl e \<Rightarrow> (Inl e, s1)
        | Inr y \<Rightarrow>
            let (X_encoded, s2) = new_frame (get_dummies ml (heap s1 X)) s1;
                task = infer_task_type y task_type
            in case train_test_split ml (heap s2 X_encoded) y of
                 Inl e \<Rightarrow> (Inl e, s2)
               | Inr sp \<Rightarrow>
                   (case train_model ml task sp of
                      Inl e \<Rightarrow> (Inl e, s2)
                    | Inr (model, perf) \<Rightarrow>
                        (case ranked_frame (columns (heap s2 X_encoded)) (feature_importances model) of
                           Inl e \<Rightarrow> (Inl e, s2)
                         | Inr feature_importance \<Rightarrow>
                             (case shap_block ml task model sp (columns (heap s2 X_encoded)) of
                                Inl e \<Rightarrow> (Inl e, s2)
                              | Inr shap_imp \<Rightarrow>
                                  let results = FeatureImportanceResult
                                        \<lparr>fi_task_type = task,
                                         fi_performance = perf,
                                         fi_feature_importance =
                                           map (\<lambda>(f, v). \<lparr>feature = f, importance = v\<rparr>) feature_importance,
                                         fi_shap_importance =
                                           map (\<lambda>(f, v). \<lparr>shap_feature = f, shap_importance = v\<rparr>) shap_imp,
                                         fi_top_features = map fst (take 10 feature_importance)\<rparr>
                                  in (Inr results,
                                      s2\<lparr>models := (models s2)(target_column \<mapsto> model),
                                         analysis_results :=
                                           (analysis_results s2)(''feature_importance'' \<mapsto> results)\<rparr>)))))"

section \<open>Notions used to state the properties\<close>

text \<open>
  A correlation matrix as pandas builds it: as many rows as columns, every row as long
  as the list of column labels.
\<close>

definition square_frame :: "corr_frame \<Rightarrow> bool" where
  "square_frame m \<longleftrightarrow>
     length (corr_rows m) = length (corr_columns m) \<and>
     list_all (\<lambda>r. length r = length (corr_columns m)) (corr_rows m)"

text \<open>The coefficient at a position (read only where it is not NaN).\<close>

definition coefficient :: "corr_frame \<Rightarrow> nat \<Rightarrow> nat \<Rightarrow> real" where
  "coefficient m i j = (case corr_rows m ! i ! j of None \<Rightarrow> 0 | Some x \<Rightarrow> x)"

text \<open>A position whose coefficient is a number of absolute value at least the threshold.\<close>

definition strong_pair :: "corr_frame \<Rightarrow> real \<Rightarrow> nat \<times> nat \<Rightarrow> bool" where
  "strong_pair m threshold p =
     (case corr_rows m ! fst p ! snd p of None \<Rightarrow> False | Some x \<Rightarrow> \<bar>x\<bar> \<ge> threshold)"

definition entry_for :: "corr_frame \<Rightarrow> nat \<times> nat \<Rightarrow> strong_correlation" where
  "entry_for m p =
     \<lparr>variable1 = corr_columns m ! fst p,
      variable2 = corr_columns m ! snd p,
      correlation = coefficient m (fst p) (snd p),
      strength = (if \<bar>coefficient m (fst p) (snd p)\<bar> \<ge> 9 / 10 then ''very strong'' else ''strong'')\<rparr>"

section \<open>Sample data\<close>

text \<open>
  A table of five rows: two numerical columns, one of them with a missing value, and a
  categorical column with three levels.
\<close>

definition height_col :: column where
  "height_col = \<lparr>col_name = ''height'', col_dtype = Number,
                  col_cells = [Num 1, NaN, Num 3, Num 4, Num 8], col_categories = []\<rparr>"

definition weight_col :: column where
  "weight_col = \<lparr>col_name = ''weight'', col_dtype = Number,
                  col_cells = [Num 2, Num 4, Num 6, Num 8, Num 16], col_categories = []\<rparr>"

definition group_col :: column where
  "group_col = \<lparr>col_name = ''group'', col_dtype = Object,
                 col_cells = [Str ''a'', Str ''b'', Str ''a'', Str ''b'', Str ''c''],
                 col_categories = []\<rparr>"

definition sample_frame :: dataframe where
  "sample_frame = \<lparr>cols = [height_col, weight_col, group_col], nrows = 5\<rparr>"

text \<open>The same table cut to its first two rows, and a table without columns.\<close>

definition short_frame :: dataframe where
  "short_frame =
     \<lparr>cols = [\<lparr>col_name = ''height'', col_dtype = Number, col_cells = [Num 1, NaN],
                col_categories = []\<rparr>,
              \<lparr>col_name = ''weight'', col_dtype = Number, col_cells = [Num 2, Num 4],
                col_categories = []\<rparr>],
      nrows = 2\<rparr>"

definition empty_frame :: dataframe where
  "empty_frame = \<lparr>cols = [], nrows = 0\<rparr>"

text \<open>A store with the three tables at the addresses 0, 1 and 2, and a fresh engine.\<close>

definition sample_world :: world where
  "sample_world =
     \<lparr>heap = (\<lambda>a. if a = 0 then sample_frame else if a = 1 then short_frame else empty_frame),
      next_free = 3,
      analysis_results = Map.empty,
      models = Map.empty\<rparr>"

text \<open>Library routines with fixed answers; the attribution step always raises.\<close>

definition sample_cluster_lib :: cluster_lib where
  "sample_cluster_lib =
     \<lparr>KMeans_fit = (\<lambda>k X. Inr \<lparr>fitted_labels = [0, 1, 0, 1, 1],
                                fitted_cluster_centers = [],
                                fitted_inertia = 100 / real_of_int k\<rparr>),
      DBSCAN_fit_predict = (\<lambda>X. Inr [0, 0, - 1, 1, - 1]),
      np_subtract = (\<lambda>a b. a - b)\<rparr>"

definition sample_forest_lib :: forest_lib where
  "sample_forest_lib =
     \<lparr>get_dummies = select_dtypes [Number],
      train_test_split = (\<lambda>X y. Inr \<lparr>X_train = X, X_test = X,
                                      y_train = col_cells y, y_test = col_cells y\<rparr>),
      classifier_fit = (\<lambda>X y. Inr \<lparr>feature_importances = [1 / 4, 3 / 4], forest_handle = 0\<rparr>),
      regressor_fit = (\<lambda>X y. Inr \<lparr>feature_importances = [1 / 4, 3 / 4], forest_handle = 1\<rparr>),
      classification_scores = (\<lambda>model sp. Inr ([], 1)),
      regression_scores = (\<lambda>model sp. Inr (0, 1)),
      shap_mean_abs = (\<lambda>task model X. Inl (LibraryError ''additivity check failed''))\<rparr>"

definition sample_corr :: corr_frame where
  "sample_corr =
     \<lparr>corr_columns = [''a'', ''b'', ''c'', ''d''],
      corr_rows =
        [[Some 1, Some (3 / 4), Some (3 / 10), None],
         [Some (3 / 4), Some 1, Some (- 19 / 20), None],
         [Some (3 / 10), Some (- 19 / 20), Some 1, None],
         [None, None, None, None]]\<rparr>"

definition sample_stats_lib :: stats_lib where
  "sample_stats_lib =
     \<lparr>ttest_ind = (\<lambda>a b. Inr (- 1, 1 / 100)),
      f_oneway = (\<lambda>groups. Inr (2, 1 / 2)),
      shapiro = (\<lambda>xs. Inr (1, 1)),
      sample = take,
      skew = (\<lambda>xs. 0),
      kurt = (\<lambda>xs. 0),
      describe = (\<lambda>d. Inr []),
      corr = (\<lambda>d. sample_corr)\<rparr>"

text \<open>A numerical target with exactly ten distinct values.\<close>

definition ten_numbers :: column where
  "ten_numbers =
     \<lparr>col_name = ''score'', col_dtype = Number,
      col_cells = [Num 1, Num 2, Num 3, Num 4, Num 5, Num 6, Num 7, Num 8, Num 9, Num 10],
      col_categories = []\<rparr>"

text \<open>A table of ten rows with that target and two numerical predictors.\<close>

definition hours_col :: column where
  "hours_col =
     \<lparr>col_name = ''hours'', col_dtype = Number,
      col_cells = [Num 3, Num 1, Num 4, Num 1, Num 5, Num 9, Num 2, Num 6, Num 5, Num 3],
      col_categories = []\<rparr>"

definition pages_col :: column where
  "pages_col =
     \<lparr>col_name = ''pages'', col_dtype = Number,
      col_cells = [Num 2, Num 7, Num 1, Num 8, Num 2, Num 8, Num 1, Num 8, Num 2, Num 8],
      col_categories = []\<rparr>"

definition score_frame :: dataframe where
  "score_frame = \<lparr>cols = [hours_col, pages_col, ten_numbers], nrows = 10\<rparr>"

definition score_world :: world where
  "score_world =
     \<lparr>heap = (\<lambda>a. if a = 0 then score_frame else empty_frame),
      next_free = 1,
      analysis_results = Map.empty,
      models = Map.empty\<rparr>"

text \<open>
  The categorical column again, of category dtype with the categories in the order c, a, b
  and a fourth category that no row has.
\<close>

definition level_col :: column where
  "level_col = \<lparr>col_name = ''level'', col_dtype = Category,
                 col_cells = [Str ''a'', Str ''b'', Str ''a'', Str ''b'', Str ''c''],
                 col_categories = [Str ''c'', Str ''a'', Str ''b'', Str ''d'']\<rparr>"

text \<open>
  Cluster routines whose fit raises for five clusters or more, and such whose fit raises
  for three clusters.
\<close>

definition strict_cluster_lib :: cluster_lib where
  "strict_cluster_lib =
     \<lparr>KMeans_fit = (\<lambda>k X. if 5 \<le> k then Inl ValueError
                           else Inr \<lparr>fitted_labels = [0, 1, 0, 1, 1],
                                     fitted_cluster_centers = [],
                                     fitted_inertia = 100 / real_of_int k\<rparr>),
      DBSCAN_fit_predict = (\<lambda>X. Inr [0, 0, - 1, 1, - 1]),
      np_subtract = (\<lambda>a b. a - b)\<rparr>"

definition broken_cluster_lib :: cluster_lib where
  "broken_cluster_lib =
     \<lparr>KMeans_fit = (\<lambda>k X. if k = 3 then Inl (LibraryError ''no convergence'')
                           else Inr \<lparr>fitted_labels = [0, 1, 0, 1, 1],
                                     fitted_cluster_centers = [],
                                     fitted_inertia = 100 / real_of_int k\<rparr>),
      DBSCAN_fit_predict = (\<lambda>X. Inr [0, 0, - 1, 1, - 1]),
      np_subtract = (\<lambda>a b. a - b)\<rparr>"

text \<open>
  Forest routines whose attribution returns one number, whatever the number of features:
  with two features the frame of the attributions cannot be built.
\<close>

definition shape_forest_lib :: forest_lib where
  "shape_forest_lib =
     \<lparr>get_dummies = select_dtypes [Number],
      train_test_split = (\<lambda>X y. Inr \<lparr>X_train = X, X_test = X,
                                      y_train = col_cells y, y_test = col_cells y\<rparr>),
      classifier_fit = (\<lambda>X y. Inr \<lparr>feature_importances = [1 / 4, 3 / 4], forest_handle = 0\<rparr>),
      regressor_fit = (\<lambda>X y. Inr \<lparr>feature_importances = [1 / 4, 3 / 4], forest_handle = 1\<rparr>),
      classification_scores = (\<lambda>model sp. Inr ([], 1)),
      regression_scores = (\<lambda>model sp. Inr (0, 1)),
      shap_mean_abs = (\<lambda>task model X. Inr [1])\<rparr>"

section \<open>Properties\<close>

subsection \<open>Ranges, differences and the position of the maximum\<close>

lemma length_np_diff: "length (np_diff sub xs) = length xs - 1"
  by (induction sub xs rule: np_diff.induct) auto

lemma argmax_from_bound: "bi < i \<Longrightarrow> argmax_from best bi i xs < i + length xs"
proof (induction xs arbitrary: best bi i)
  case Nil
  then show ?case by simp
next
  case (Cons x xs)
  have a: "argmax_from x i (Suc i) xs < Suc i + length xs"
    by (rule Cons.IH) simp
  have b: "argmax_from best bi (Suc i) xs < Suc i + length xs"
    by (rule Cons.IH) (use Cons.prems in simp)
  from a b show ?case by simp
qed

lemma np_argmax_total: "xs \<noteq> [] \<Longrightarrow> \<exists>a. np_argmax xs = Inr a"
  by (auto simp: np_argmax_def split: list.splits)

lemma length_py_range: "length (py_range a b) = nat (b - a)"
  by (simp add: py_range_def)

lemma range_getitem_py_range:
  "0 \<le> i \<Longrightarrow> i < b - a \<Longrightarrow> range_getitem (py_range a b) i = Inr (a + i)"
  by (simp add: range_getitem_def py_range_def Let_def)

subsection \<open>The elbow selection\<close>

lemma elbow_sweep_length:
  "elbow_sweep sk X ks acc = Inr r \<Longrightarrow> length r = length acc + length ks"
  by (induction ks arbitrary: acc) (auto split: sum.splits)

lemma elbow_sweep_total:
  "\<forall>k\<in>set ks. \<exists>f. KMeans_fit sk k X = Inr f \<Longrightarrow> \<exists>r. elbow_sweep sk X ks acc = Inr r"
  by (induction ks arbitrary: acc) (auto split: sum.splits)

lemma find_elbow_in_range:
  assumes "find_elbow sk (py_range a b) inertias = Inr k"
    and "length inertias = length (py_range a b)"
  shows "a \<le> k \<and> k < b"
proof (cases "length inertias < 3")
  case True
  with assms show ?thesis
    by (auto simp: find_elbow_def range_getitem_def py_range_def Let_def split: if_splits)
next
  case False
  then have n3: "3 \<le> length inertias" by simp
  then have d2: "length (np_diff (np_subtract sk) (np_diff (np_subtract sk) inertias)) > 0" by (simp add: length_np_diff)
  then obtain i where i: "np_argmax (np_diff (np_subtract sk) (np_diff (np_subtract sk) inertias)) = Inr i"
    using np_argmax_total[of "np_diff (np_subtract sk) (np_diff (np_subtract sk) inertias)"] by auto
  from assms n3 have ba: "3 \<le> b - a" by (simp add: length_py_range)
  let ?j = "min (int i + 2) (int (length (py_range a b)) - 1)"
  have j: "0 \<le> ?j \<and> ?j < b - a" using ba by (simp add: length_py_range)
  from assms(1) False d2 i have "range_getitem (py_range a b) ?j = Inr k"
    by (simp add: find_elbow_def Let_def)
  with range_getitem_py_range[of ?j b a] j have "k = a + ?j" by simp
  with j show ?thesis by linarith
qed

lemma find_elbow_total:
  assumes "length inertias = length (py_range a b)" and "a < b"
  shows "\<exists>k. find_elbow sk (py_range a b) inertias = Inr k"
proof (cases "length inertias < 3")
  case True
  with assms range_getitem_py_range[of 0 b a] show ?thesis
    by (simp add: find_elbow_def)
next
  case False
  then have n3: "3 \<le> length inertias" by simp
  then have d2: "length (np_diff (np_subtract sk) (np_diff (np_subtract sk) inertias)) > 0" by (simp add: length_np_diff)
  then obtain i where i: "np_argmax (np_diff (np_subtract sk) (np_diff (np_subtract sk) inertias)) = Inr i"
    using np_argmax_total[of "np_diff (np_subtract sk) (np_diff (np_subtract sk) inertias)"] by auto
  from assms n3 have ba: "3 \<le> b - a" by (simp add: length_py_range)
  let ?j = "min (int i + 2) (int (length (py_range a b)) - 1)"
  have j: "0 \<le> ?j \<and> ?j < b - a" using ba by (simp add: length_py_range)
  with range_getitem_py_range[of ?j b a] False d2 i show ?thesis
    by (simp add: find_elbow_def Let_def)
qed

lemma auto_n_clusters_in_range:
  assumes "auto_n_clusters sk X None = Inr k"
  shows "2 \<le> k \<and> k < min 11 (len X)"
proof -
  from assms obtain inertias where sw: "elbow_sweep sk X (K_range X) [] = Inr inertias"
    and fe: "find_elbow sk (K_range X) inertias = Inr k"
    by (auto simp: auto_n_clusters_def split: sum.splits)
  from elbow_sweep_length[OF sw] have "length inertias = length (K_range X)" by simp
  with fe find_elbow_in_range[of sk 2 "min 11 (len X)" inertias k] show ?thesis
    by (simp add: K_range_def)
qed

lemma auto_n_clusters_total:
  assumes "3 \<le> len X" and "\<forall>k\<in>set (K_range X). \<exists>f. KMeans_fit sk k X = Inr f"
  shows "\<exists>k. auto_n_clusters sk X None = Inr k"
proof -
  from elbow_sweep_total[OF assms(2)] obtain inertias where
    sw: "elbow_sweep sk X (K_range X) [] = Inr inertias" by blast
  from elbow_sweep_length[OF sw] have "length inertias = length (K_range X)" by simp
  with find_elbow_total[of inertias 2 "min 11 (len X)" sk] assms(1) sw show ?thesis
    by (auto simp: K_range_def auto_n_clusters_def)
qed

subsection \<open>What the operations return\<close>

lemma nrows_fillna_getitem [simp]: "nrows (fillna_mean (getitem_cols d ns)) = nrows d"
  by (simp add: fillna_mean_def getitem_cols_def)

lemma clustering_analysis_fst:
  "fst (clustering_analysis sk df n self) =
     (let numerical_cols = columns (select_dtypes [Number] (heap self df)) in
      if length numerical_cols < 2
      then Inr (ErrorResult ''Need at least 2 numerical columns for clustering'')
      else
        let X = fillna_mean (getitem_cols (heap self df) numerical_cols) in
        case auto_n_clusters sk X n of
          Inl e \<Rightarrow> Inl e
        | Inr k \<Rightarrow>
            (case KMeans_fit sk k X of
               Inl e \<Rightarrow> Inl e
             | Inr fitted \<Rightarrow>
                 (case DBSCAN_fit_predict sk X of
                    Inl e \<Rightarrow> Inl e
                  | Inr dbscan_labels \<Rightarrow>
                      Inr (ClusteringResult
                            \<lparr>km_n_clusters = k,
                             km_labels = fitted_labels fitted,
                             km_centroids = fitted_cluster_centers fitted,
                             km_inertia = fitted_inertia fitted,
                             km_cluster_sizes = value_counts (fitted_labels fitted)\<rparr>
                            (dbscan_summary dbscan_labels)))))"
  by (simp add: clustering_analysis_def new_frame_def Let_def split: sum.splits)

lemma feature_importance_fst:
  assumes "df < next_free self"
  shows "fst (feature_importance_analysis ml df target_column task_type self) =
     (let d = heap self df in
      if target_column \<notin> set (columns d)
      then Inr (ErrorResult (''Target column '' @ target_column @ '' not found''))
      else
        case getitem_col d target_column of
          Inl e \<Rightarrow> Inl e
        | Inr y \<Rightarrow>
            let X_encoded = get_dummies ml (drop_columns d [target_column]);
                task = infer_task_type y task_type
            in case train_test_split ml X_encoded y of
                 Inl e \<Rightarrow> Inl e
               | Inr sp \<Rightarrow>
                   (case train_model ml task sp of
                      Inl e \<Rightarrow> Inl e
                    | Inr (model, perf) \<Rightarrow>
                        (case ranked_frame (columns X_encoded) (feature_importances model) of
                           Inl e \<Rightarrow> Inl e
                         | Inr feature_importance \<Rightarrow>
                             (case shap_block ml task model sp (columns X_encoded) of
                                Inl e \<Rightarrow> Inl e
                              | Inr shap_imp \<Rightarrow>
                                  Inr (FeatureImportanceResult
                                        \<lparr>fi_task_type = task,
                                         fi_performance = perf,
                                         fi_feature_importance =
                                           map (\<lambda>(f, v). \<lparr>feature = f, importance = v\<rparr>) feature_importance,
                                         fi_shap_importance =
                                           map (\<lambda>(f, v). \<lparr>shap_feature = f, shap_importance = v\<rparr>) shap_imp,
                                         fi_top_features = map fst (take 10 feature_importance)\<rparr>)))))"
  using assms
  by (simp add: feature_importance_analysis_def new_frame_def Let_def split: sum.splits prod.splits)

lemma feature_importance_error_iff:
  "(\<exists>msg. fst (feature_importance_analysis ml df target_column task_type self) = Inr (ErrorResult msg))
     \<longleftrightarrow> target_column \<notin> set (columns (heap self df))"
  by (auto simp: feature_importance_analysis_def new_frame_def Let_def split: sum.splits prod.splits)

lemma clustering_error_iff:
  "(\<exists>msg. fst (clustering_analysis sk df n self) = Inr (ErrorResult msg))
     \<longleftrightarrow> length (columns (select_dtypes [Number] (heap self df))) < 2"
  by (auto simp: clustering_analysis_fst Let_def split: sum.splits)

subsection \<open>The operations on the sample data\<close>

lemmas sample_defs = sample_world_def sample_frame_def short_frame_def empty_frame_def
  height_col_def weight_col_def group_col_def

lemma sample_numeric_columns:
  "columns (select_dtypes [Number] (heap sample_world 0)) = [''height'', ''weight'']"
  by (simp add: sample_defs columns_def select_dtypes_def)

lemma sample_matrix:
  "fillna_mean (getitem_cols (heap sample_world 0) [''height'', ''weight'']) =
     \<lparr>cols = [\<lparr>col_name = ''height'', col_dtype = Number,
                col_cells = [Num 1, Num 4, Num 3, Num 4, Num 8], col_categories = []\<rparr>, weight_col],
      nrows = 5\<rparr>"
  by (simp add: sample_defs getitem_cols_def fillna_mean_def mean_def numbers_def fill_cell_def)

lemma sample_K_range: "K_range \<lparr>cols = cs, nrows = 5\<rparr> = [2, 3, 4]"
  by (simp add: K_range_def py_range_def len_def upto.simps)

lemma sample_auto: "auto_n_clusters sample_cluster_lib \<lparr>cols = cs, nrows = 5\<rparr> None = Inr 4"
  by (simp add: auto_n_clusters_def sample_K_range sample_cluster_lib_def find_elbow_def
        np_argmax_def range_getitem_def)

lemma sample_clustering:
  "fst (clustering_analysis sample_cluster_lib 0 None sample_world) =
     Inr (ClusteringResult
       \<lparr>km_n_clusters = 4, km_labels = [0, 1, 0, 1, 1], km_centroids = [],
        km_inertia = 25, km_cluster_sizes = value_counts [0, 1, 0, 1, 1]\<rparr>
       (dbscan_summary [0, 0, - 1, 1, - 1]))"
  by (simp add: clustering_analysis_fst sample_numeric_columns sample_matrix sample_auto)
     (simp add: sample_cluster_lib_def)

lemma sample_target: "getitem_col (heap sample_world 0) ''group'' = Inr group_col"
  by (simp add: sample_defs getitem_col_def)

lemma sample_encoded:
  "get_dummies sample_forest_lib (drop_columns (heap sample_world 0) [''group'']) =
     \<lparr>cols = [height_col, weight_col], nrows = 5\<rparr>"
  by (simp add: sample_forest_lib_def sample_defs drop_columns_def select_dtypes_def)

lemma sample_task: "infer_task_type group_col ''auto'' = ''classification''"
  by (simp add: infer_task_type_def group_col_def)

lemma sample_ranked:
  "ranked_frame [''height'', ''weight''] [1 / 4, 3 / 4] = Inr [(''weight'', 3 / 4), (''height'', 1 / 4)]"
  by (simp add: ranked_frame_def)

lemma sample_importance:
  "fst (feature_importance_analysis sample_forest_lib 0 ''group'' ''auto'' sample_world) =
     Inr (FeatureImportanceResult
       \<lparr>fi_task_type = ''classification'',
        fi_performance = ClassificationPerformance [] 1,
        fi_feature_importance =
          [\<lparr>feature = ''weight'', importance = 3 / 4\<rparr>, \<lparr>feature = ''height'', importance = 1 / 4\<rparr>],
        fi_shap_importance =
          [\<lparr>shap_feature = ''weight'', shap_importance = 3 / 4\<rparr>,
           \<lparr>shap_feature = ''height'', shap_importance = 1 / 4\<rparr>],
        fi_top_features = [''weight'', ''height'']\<rparr>)"
proof -
  have alloc: "0 < next_free sample_world" by (simp add: sample_world_def)
  have cols: "columns \<lparr>cols = [height_col, weight_col], nrows = 5\<rparr> = [''height'', ''weight'']"
    by (simp add: columns_def height_col_def weight_col_def)
  have present: "''group'' \<in> set (columns (heap sample_world 0))"
    by (simp add: sample_defs columns_def)
  have split: "train_test_split sample_forest_lib X y =
      Inr \<lparr>X_train = X, X_test = X, y_train = col_cells y, y_test = col_cells y\<rparr>" for X y
    by (simp add: sample_forest_lib_def)
  have train: "train_model sample_forest_lib ''classification'' sp =
      Inr (\<lparr>feature_importances = [1 / 4, 3 / 4], forest_handle = 0\<rparr>, ClassificationPerformance [] 1)" for sp
    by (simp add: train_model_def sample_forest_lib_def)
  have shap: "shap_block sample_forest_lib task \<lparr>feature_importances = [1 / 4, 3 / 4], forest_handle = 0\<rparr> sp
      [''height'', ''weight''] = Inr [(''weight'', 3 / 4), (''height'', 1 / 4)]" for task sp
    by (simp add: shap_block_def shap_try_def sample_forest_lib_def sample_ranked)
  show ?thesis
    unfolding feature_importance_fst[OF alloc] Let_def
    by (simp add: present sample_target sample_encoded sample_task split train cols sample_ranked shap)
qed

subsection \<open>Cluster analysis\<close>

lemma K_range_upto: "K_range X = [2..min 11 (len X) - 1]"
  by (simp add: K_range_def py_range_def)

lemma len_fillna_getitem: "len (fillna_mean (getitem_cols d ns)) = len d"
  by (simp add: len_def)

lemma elbow_sweep_inertias:
  "elbow_sweep sk X ks acc = Inr r \<Longrightarrow>
     \<exists>new. r = acc @ new \<and>
       list_all2 (\<lambda>k i. \<exists>f. KMeans_fit sk k X = Inr f \<and> fitted_inertia f = i) ks new"
proof (induction ks arbitrary: acc)
  case Nil
  then show ?case by simp
next
  case (Cons k ks)
  from Cons.prems obtain f where f: "KMeans_fit sk k X = Inr f"
    and rest: "elbow_sweep sk X ks (acc @ [fitted_inertia f]) = Inr r"
    by (auto split: sum.splits)
  from Cons.IH[OF rest] obtain new where
    "r = (acc @ [fitted_inertia f]) @ new"
    and "list_all2 (\<lambda>k i. \<exists>f. KMeans_fit sk k X = Inr f \<and> fitted_inertia f = i) ks new"
    by blast
  with f have "r = acc @ (fitted_inertia f # new) \<and>
      list_all2 (\<lambda>k i. \<exists>f. KMeans_fit sk k X = Inr f \<and> fitted_inertia f = i) (k # ks) (fitted_inertia f # new)"
    by simp
  then show ?case by blast
qed

lemma elbow_sweep_raises:
  "k \<in> set ks \<Longrightarrow> KMeans_fit sk k X = Inl e \<Longrightarrow> isl (elbow_sweep sk X ks acc)"
  by (induction ks arbitrary: acc) (auto split: sum.splits)

lemma auto_n_clusters_raises:
  assumes "2 \<le> k" and "k \<le> min 11 (len X) - 1" and "KMeans_fit sk k X = Inl e"
  shows "isl (auto_n_clusters sk X None)"
proof -
  from assms(1,2) have "k \<in> set (K_range X)" by (simp add: K_range_upto)
  from elbow_sweep_raises[OF this assms(3), of "[]"] show ?thesis
    by (auto simp: auto_n_clusters_def isl_def)
qed

lemma strict_auto: "auto_n_clusters strict_cluster_lib \<lparr>cols = cs, nrows = 5\<rparr> None = Inr 4"
  by (simp add: auto_n_clusters_def sample_K_range strict_cluster_lib_def find_elbow_def
        np_argmax_def range_getitem_def)

lemma strict_clustering:
  "fst (clustering_analysis strict_cluster_lib 0 None sample_world) =
     Inr (ClusteringResult
       \<lparr>km_n_clusters = 4, km_labels = [0, 1, 0, 1, 1], km_centroids = [],
        km_inertia = 25, km_cluster_sizes = value_counts [0, 1, 0, 1, 1]\<rparr>
       (dbscan_summary [0, 0, - 1, 1, - 1]))"
  by (simp add: clustering_analysis_fst sample_numeric_columns sample_matrix strict_auto)
     (simp add: strict_cluster_lib_def)

text \<open>
  Claim C1, as the code has it. Without a caller-supplied cluster count
  \<^verbatim>\<open>clustering_analysis\<close> fits the clustering input matrix once for each
  k = 2 .. min(11, row_count) - 1, in this order, and for no other k before it chooses: the
  sweep records the inertia of exactly these fits; a fit that raises for one of these k
  makes the operation raise; and when the fits for these k and the density-based fit
  succeed on a table of at least three rows, the operation returns a clustering result,
  whatever a fit for another k would do. The k of a clustering result lies within
  [2, min(11, row_count) - 1].
\<close>

theorem elbow_sweep_range:
  assumes "d = heap self df"
    and "M = fillna_mean (getitem_cols d (columns (select_dtypes [Number] d)))"
    and "2 \<le> length (columns (select_dtypes [Number] d))"
  shows "(\<forall>inertias. elbow_sweep sk M (K_range M) [] = Inr inertias \<longrightarrow>
            list_all2 (\<lambda>k i. \<exists>f. KMeans_fit sk k M = Inr f \<and> fitted_inertia f = i)
              [2..min 11 (len d) - 1] inertias) \<and>
         (\<forall>k e. 2 \<le> k \<and> k \<le> min 11 (len d) - 1 \<and> KMeans_fit sk k M = Inl e \<longrightarrow>
            isl (fst (clustering_analysis sk df None self))) \<and>
         (\<forall>km db. fst (clustering_analysis sk df None self) = Inr (ClusteringResult km db) \<longrightarrow>
            2 \<le> km_n_clusters km \<and> km_n_clusters km \<le> min 11 (len d) - 1) \<and>
         (3 \<le> len d \<and>
          (\<forall>k\<in>set [2..min 11 (len d) - 1]. \<exists>f. KMeans_fit sk k M = Inr f) \<and>
          (\<exists>ls. DBSCAN_fit_predict sk M = Inr ls) \<longrightarrow>
            (\<exists>km db. fst (clustering_analysis sk df None self) = Inr (ClusteringResult km db)))"
proof (intro conjI allI impI)
  have lenM: "len M = len d" unfolding assms(2) by (rule len_fillna_getitem)
  note run = clustering_analysis_fst[of sk df None self, folded assms(1), unfolded Let_def, folded assms(2)]
  {
    fix inertias
    assume "elbow_sweep sk M (K_range M) [] = Inr inertias"
    from elbow_sweep_inertias[OF this]
    show "list_all2 (\<lambda>k i. \<exists>f. KMeans_fit sk k M = Inr f \<and> fitted_inertia f = i)
              [2..min 11 (len d) - 1] inertias"
      by (simp add: K_range_upto lenM)
  next
    fix k e
    assume "2 \<le> k \<and> k \<le> min 11 (len d) - 1 \<and> KMeans_fit sk k M = Inl e"
    then have "isl (auto_n_clusters sk M None)"
      using auto_n_clusters_raises[of k M sk e] by (simp add: lenM)
    then show "isl (fst (clustering_analysis sk df None self))"
      using assms(3) by (auto simp: run isl_def)
  next
    fix km db
    assume r: "fst (clustering_analysis sk df None self) = Inr (ClusteringResult km db)"
    then obtain k where "auto_n_clusters sk M None = Inr k" and "km_n_clusters km = k"
      by (auto simp: run split: if_splits sum.splits)
    with auto_n_clusters_in_range[of sk M k]
    show "2 \<le> km_n_clusters km" and "km_n_clusters km \<le> min 11 (len d) - 1"
      by (simp_all add: lenM)
  next
    assume a: "3 \<le> len d \<and>
          (\<forall>k\<in>set [2..min 11 (len d) - 1]. \<exists>f. KMeans_fit sk k M = Inr f) \<and>
          (\<exists>ls. DBSCAN_fit_predict sk M = Inr ls)"
    then have fits: "\<forall>k\<in>set (K_range M). \<exists>f. KMeans_fit sk k M = Inr f"
      by (simp add: K_range_upto lenM)
    from a have "3 \<le> len M" by (simp add: lenM)
    from auto_n_clusters_total[OF this fits] obtain k where k: "auto_n_clusters sk M None = Inr k"
      by blast
    from auto_n_clusters_in_range[OF k] have "k \<in> set (K_range M)"
      by (simp add: K_range_upto)
    with fits obtain f where f: "KMeans_fit sk k M = Inr f" by blast
    from a obtain ls where ls: "DBSCAN_fit_predict sk M = Inr ls" by blast
    from assms(3) k f ls
    show "\<exists>km db. fst (clustering_analysis sk df None self) = Inr (ClusteringResult km db)"
      by (simp add: run)
  }
qed

theorem elbow_sweep_range_witness:
  "2 \<le> length (columns (select_dtypes [Number] (heap sample_world 0))) \<and>
   3 \<le> len (heap sample_world 0) \<and>
   (\<exists>km db. fst (clustering_analysis strict_cluster_lib 0 None sample_world) = Inr (ClusteringResult km db) \<and>
      2 \<le> km_n_clusters km \<and> km_n_clusters km \<le> min 11 (len (heap sample_world 0)) - 1) \<and>
   KMeans_fit broken_cluster_lib 3
     (fillna_mean (getitem_cols (heap sample_world 0) (columns (select_dtypes [Number] (heap sample_world 0))))) =
     Inl (LibraryError ''no convergence'') \<and>
   isl (fst (clustering_analysis broken_cluster_lib 0 None sample_world))"
proof -
  let ?d = "heap sample_world 0"
  let ?M = "fillna_mean (getitem_cols ?d (columns (select_dtypes [Number] ?d)))"
  have c: "2 \<le> length (columns (select_dtypes [Number] ?d))"
    by (simp add: sample_numeric_columns)
  have n: "len ?d = 5" by (simp add: len_def sample_defs)
  have rows: "3 \<le> len ?d" by (simp add: n)
  have fits: "\<forall>k\<in>set [2..min 11 (len ?d) - 1]. \<exists>f. KMeans_fit strict_cluster_lib k ?M = Inr f"
    by (simp add: n strict_cluster_lib_def)
  have db: "\<exists>ls. DBSCAN_fit_predict strict_cluster_lib ?M = Inr ls"
    by (simp add: strict_cluster_lib_def)
  have bad: "KMeans_fit broken_cluster_lib 3 ?M = Inl (LibraryError ''no convergence'')"
    by (simp add: broken_cluster_lib_def)
  note strict = elbow_sweep_range[OF refl refl c, of strict_cluster_lib]
  note broken = elbow_sweep_range[OF refl refl c, of broken_cluster_lib]
  from strict rows fits db have
    "\<exists>km db. fst (clustering_analysis strict_cluster_lib 0 None sample_world) = Inr (ClusteringResult km db)"
    by blast
  with strict have returned:
    "\<exists>km db. fst (clustering_analysis strict_cluster_lib 0 None sample_world) = Inr (ClusteringResult km db) \<and>
      2 \<le> km_n_clusters km \<and> km_n_clusters km \<le> min 11 (len ?d) - 1"
    by blast
  from broken have fails:
    "2 \<le> k \<and> k \<le> min 11 (len ?d) - 1 \<and> KMeans_fit broken_cluster_lib k ?M = Inl e \<Longrightarrow>
       isl (fst (clustering_analysis broken_cluster_lib 0 None sample_world))" for k e
    by blast
  have raised: "isl (fst (clustering_analysis broken_cluster_lib 0 None sample_world))"
    by (rule fails[of 3 "LibraryError ''no convergence''"]) (simp add: n bad)
  from c rows returned bad raised show ?thesis by blast
qed

text \<open>
  On a table of five rows the candidates are 2, 3 and 4: k = min(11, 5) = 5 is not one of
  them. With a fit that raises for five clusters the operation still returns its result.
\<close>

theorem sweep_counterexample:
  "K_range sample_frame = [2, 3, 4] \<and> min 11 (len sample_frame) = 5 \<and> 5 \<notin> set (K_range sample_frame) \<and>
   KMeans_fit strict_cluster_lib 5 sample_frame = Inl ValueError \<and>
   fst (clustering_analysis strict_cluster_lib 0 None sample_world) =
     Inr (ClusteringResult
       \<lparr>km_n_clusters = 4, km_labels = [0, 1, 0, 1, 1], km_centroids = [],
        km_inertia = 25, km_cluster_sizes = value_counts [0, 1, 0, 1, 1]\<rparr>
       (dbscan_summary [0, 0, - 1, 1, - 1]))"
proof -
  have "K_range sample_frame = [2, 3, 4] \<and> min 11 (len sample_frame) = 5 \<and> 5 \<notin> set (K_range sample_frame)"
    by (simp add: K_range_def py_range_def len_def sample_frame_def upto.simps)
  moreover have "KMeans_fit strict_cluster_lib 5 sample_frame = Inl ValueError"
    by (simp add: strict_cluster_lib_def)
  ultimately show ?thesis using strict_clustering by simp
qed

text \<open>
  Claim C6, as the code has it. Given fewer than three inertia samples, the elbow selection
  returns the first candidate k, with one sample and with two alike (and raises IndexError
  when there is no candidate).
\<close>

theorem find_elbow_few_samples:
  "length inertias < 3 \<Longrightarrow>
     find_elbow sk (k # ks) inertias = Inr k \<and> find_elbow sk [] inertias = Inl IndexError"
  by (simp add: find_elbow_def range_getitem_def)

theorem find_elbow_few_samples_witness:
  "length [10, 4 :: real] < 3 \<and> find_elbow sample_cluster_lib [2, 3] [10, 4] = Inr 2 \<and>
   find_elbow sample_cluster_lib [] [10, 4] = Inl IndexError"
  using find_elbow_few_samples[of "[10, 4]" sample_cluster_lib 2 "[3]"] by simp

text \<open>
  With the two candidates 2 and 3 and two samples the selection returns 2, while the middle
  of the candidate range, \<^verbatim>\<open>k_range[len(k_range) // 2]\<close>, is 3.
\<close>

theorem find_elbow_two_samples_counterexample:
  "find_elbow sample_cluster_lib [2, 3] [10, 4] = Inr 2 \<and>
   range_getitem [2, 3] (int (length [2, 3 :: int]) div 2) = Inr 3"
  by (simp add: find_elbow_def range_getitem_def)

text \<open>
  Claim C10. For a Dataset with at least two numerical columns and at most two rows,
  \<^verbatim>\<open>clustering_analysis\<close> without a cluster count raises IndexError: the candidate
  range is empty and the elbow selection reads its first element.
\<close>

theorem clustering_too_few_rows:
  assumes "2 \<le> length (columns (select_dtypes [Number] (heap self df)))"
    and "nrows (heap self df) \<le> 2"
  shows "fst (clustering_analysis sk df None self) = Inl IndexError"
proof -
  let ?X = "fillna_mean (getitem_cols (heap self df) (columns (select_dtypes [Number] (heap self df))))"
  from assms(2) have "K_range ?X = []"
    by (simp add: K_range_def py_range_def len_def)
  then have "auto_n_clusters sk ?X None = Inl IndexError"
    by (simp add: auto_n_clusters_def find_elbow_def range_getitem_def)
  with assms(1) show ?thesis
    by (simp add: clustering_analysis_fst Let_def)
qed

theorem clustering_too_few_rows_witness:
  "2 \<le> length (columns (select_dtypes [Number] (heap sample_world 1))) \<and>
   nrows (heap sample_world 1) \<le> 2 \<and>
   fst (clustering_analysis sample_cluster_lib 1 None sample_world) = Inl IndexError"
proof -
  have c: "2 \<le> length (columns (select_dtypes [Number] (heap sample_world 1)))"
    by (simp add: sample_defs columns_def select_dtypes_def)
  have r: "nrows (heap sample_world 1) \<le> 2" by (simp add: sample_defs)
  from c r clustering_too_few_rows[OF c r] show ?thesis by simp
qed

lemma card_set_minus_noise:
  "int (card (set ls)) - (if x \<in> set ls then 1 else 0) = int (card (set ls - {x}))"
proof (cases "x \<in> set ls")
  case True
  then have "0 < card (set ls)" by (auto simp: card_gt_0_iff)
  with True show ?thesis by (simp add: of_nat_diff Suc_leI)
next
  case False
  then show ?thesis by simp
qed

lemma dbscan_summary_counts:
  "db_labels (dbscan_summary ls) = ls \<and>
   db_n_noise_points (dbscan_summary ls) = length (filter (\<lambda>l. l = - 1) ls) \<and>
   db_n_clusters (dbscan_summary ls) = int (card (set ls - {- 1})) \<and>
   (\<forall>l. db_cluster_sizes (dbscan_summary ls) l =
      (if l \<in> set ls \<and> l \<noteq> - 1 then Some (length (filter (\<lambda>x. x = l) ls)) else None))"
proof -
  have c: "\<And>l. count_list (filter (\<lambda>l. l \<noteq> - 1) ls) l = (if l = - 1 then 0 else length (filter (\<lambda>x. x = l) ls))"
    by (induction ls) auto
  have n: "count_list ls (- 1) = length (filter (\<lambda>l. l = - 1) ls)"
    by (induction ls) auto
  show ?thesis
    using card_set_minus_noise[of ls "- 1"]
    by (auto simp: dbscan_summary_def value_counts_def c n)
qed

text \<open>
  Claim C7. In the density-based part of a clustering result, \<^verbatim>\<open>n_noise_points\<close> is the
  number of points labelled - 1, \<^verbatim>\<open>n_clusters\<close> is the number of distinct labels other
  than - 1, and \<^verbatim>\<open>cluster_sizes\<close> has an entry exactly for each label other than - 1
  that occurs, namely the number of points with that label.
\<close>

theorem dbscan_report_counts:
  assumes "fst (clustering_analysis sk df n self) = Inr (ClusteringResult km db)"
  shows "db_n_noise_points db = length (filter (\<lambda>l. l = - 1) (db_labels db)) \<and>
         db_n_clusters db = int (card (set (db_labels db) - {- 1})) \<and>
         (\<forall>l. db_cluster_sizes db l =
            (if l \<in> set (db_labels db) \<and> l \<noteq> - 1
             then Some (length (filter (\<lambda>x. x = l) (db_labels db))) else None))"
proof -
  from assms obtain ls where "db = dbscan_summary ls"
    by (auto simp: clustering_analysis_fst Let_def split: if_splits sum.splits)
  with dbscan_summary_counts[of ls] show ?thesis by simp
qed

theorem dbscan_report_counts_witness:
  "\<exists>km db. fst (clustering_analysis sample_cluster_lib 0 None sample_world) = Inr (ClusteringResult km db) \<and>
     db_labels db = [0, 0, - 1, 1, - 1] \<and>
     db_n_noise_points db = 2 \<and>
     db_n_clusters db = 2 \<and>
     db_cluster_sizes db 0 = Some 2 \<and> db_cluster_sizes db 1 = Some 1 \<and> db_cluster_sizes db (- 1) = None"
proof -
  let ?db = "dbscan_summary [0, 0, - 1, 1, - 1]"
  have l: "db_labels ?db = [0, 0, - 1, 1, - 1]" by (simp add: dbscan_summary_def)
  have s: "set [0, 0, - 1, 1, - 1 :: int] - {- 1} = {0, 1}" by auto
  from dbscan_report_counts[OF sample_clustering]
  have "db_n_noise_points ?db = 2 \<and> db_n_clusters ?db = 2 \<and>
        db_cluster_sizes ?db 0 = Some 2 \<and> db_cluster_sizes ?db 1 = Some 1 \<and> db_cluster_sizes ?db (- 1) = None"
    unfolding l s by simp
  with l sample_clustering show ?thesis by blast
qed

subsection \<open>Error results\<close>

text \<open>
  Claim C8. \<^verbatim>\<open>clustering_analysis\<close> returns an error result exactly when the Dataset has
  fewer than two numerical columns, and \<^verbatim>\<open>feature_importance_analysis\<close> returns an error
  result exactly when the target column is not a column of the Dataset; in both cases the
  error is a returned value, not a raised exception.
\<close>

theorem error_results_exact:
  "((\<exists>msg. fst (clustering_analysis sk df n self) = Inr (ErrorResult msg))
      \<longleftrightarrow> length (columns (select_dtypes [Number] (heap self df))) < 2) \<and>
   ((\<exists>msg. fst (feature_importance_analysis ml df target_column task_type self) = Inr (ErrorResult msg))
      \<longleftrightarrow> target_column \<notin> set (columns (heap self df)))"
  using clustering_error_iff feature_importance_error_iff by simp

theorem error_results_exact_witness:
  "(\<exists>msg. fst (clustering_analysis sample_cluster_lib 2 None sample_world) = Inr (ErrorResult msg)) \<and>
   length (columns (select_dtypes [Number] (heap sample_world 2))) < 2 \<and>
   (\<exists>msg. fst (feature_importance_analysis sample_forest_lib 2 ''price'' ''auto'' sample_world) = Inr (ErrorResult msg)) \<and>
   ''price'' \<notin> set (columns (heap sample_world 2))"
proof -
  have a: "length (columns (select_dtypes [Number] (heap sample_world 2))) < 2"
    by (simp add: sample_defs columns_def select_dtypes_def)
  have b: "''price'' \<notin> set (columns (heap sample_world 2))"
    by (simp add: sample_defs columns_def)
  from a b error_results_exact[of sample_cluster_lib 2 None sample_world sample_forest_lib "''price''" "''auto''"]
  show ?thesis by simp
qed

subsection \<open>Feature importance\<close>

lemma score_importance:
  "fst (feature_importance_analysis sample_forest_lib 0 ''score'' ''auto'' score_world) =
     Inr (FeatureImportanceResult
       \<lparr>fi_task_type = ''regression'',
        fi_performance = RegressionPerformance 0 0 1,
        fi_feature_importance =
          [\<lparr>feature = ''pages'', importance = 3 / 4\<rparr>, \<lparr>feature = ''hours'', importance = 1 / 4\<rparr>],
        fi_shap_importance =
          [\<lparr>shap_feature = ''pages'', shap_importance = 3 / 4\<rparr>,
           \<lparr>shap_feature = ''hours'', shap_importance = 1 / 4\<rparr>],
        fi_top_features = [''pages'', ''hours'']\<rparr>)"
proof -
  have alloc: "0 < next_free score_world" by (simp add: score_world_def)
  have h: "heap score_world 0 = score_frame" by (simp add: score_world_def)
  have present: "''score'' \<in> set (columns score_frame)"
    by (simp add: score_frame_def columns_def hours_col_def pages_col_def ten_numbers_def)
  have target: "getitem_col score_frame ''score'' = Inr ten_numbers"
    by (simp add: getitem_col_def score_frame_def hours_col_def pages_col_def ten_numbers_def)
  have enc: "get_dummies sample_forest_lib (drop_columns score_frame [''score'']) =
      \<lparr>cols = [hours_col, pages_col], nrows = 10\<rparr>"
    by (simp add: sample_forest_lib_def drop_columns_def select_dtypes_def score_frame_def
          hours_col_def pages_col_def ten_numbers_def)
  have cols: "columns \<lparr>cols = [hours_col, pages_col], nrows = 10\<rparr> = [''hours'', ''pages'']"
    by (simp add: columns_def hours_col_def pages_col_def)
  have task: "infer_task_type ten_numbers ''auto'' = ''regression''"
    by (simp add: infer_task_type_def ten_numbers_def nunique_def dropna_def)
  have split: "train_test_split sample_forest_lib X y =
      Inr \<lparr>X_train = X, X_test = X, y_train = col_cells y, y_test = col_cells y\<rparr>" for X y
    by (simp add: sample_forest_lib_def)
  have train: "train_model sample_forest_lib ''regression'' sp =
      Inr (\<lparr>feature_importances = [1 / 4, 3 / 4], forest_handle = 1\<rparr>, RegressionPerformance 0 0 1)" for sp
    by (simp add: train_model_def sample_forest_lib_def)
  have ranked: "ranked_frame [''hours'', ''pages''] [1 / 4, 3 / 4] = Inr [(''pages'', 3 / 4), (''hours'', 1 / 4)]"
    by (simp add: ranked_frame_def)
  have shap: "shap_block sample_forest_lib task model sp names =
      ranked_frame names (feature_importances model)" for task model sp names
    by (simp add: shap_block_def shap_try_def sample_forest_lib_def)
  show ?thesis
    unfolding feature_importance_fst[OF alloc] Let_def h
    by (simp add: present target enc task split train cols ranked shap)
qed

text \<open>
  Claim C2, as the code has it. With \<^verbatim>\<open>task_type == 'auto'\<close> a target of
  \<^verbatim>\<open>object\<close> dtype, and a target with fewer than 10 distinct non-missing values, is
  a classification target; a numerical target with 10 or more distinct values is a
  regression target, so one with exactly 10 distinct values is.
\<close>

theorem task_type_inference:
  assumes "df < next_free self"
    and "getitem_col (heap self df) target_column = Inr y"
    and "fst (feature_importance_analysis ml df target_column ''auto'' self) = Inr (FeatureImportanceResult r)"
  shows "(col_dtype y = Object \<or> nunique (col_cells y) < 10 \<longrightarrow> fi_task_type r = ''classification'') \<and>
         (col_dtype y = Number \<and> 10 \<le> nunique (col_cells y) \<longrightarrow> fi_task_type r = ''regression'') \<and>
         (col_dtype y = Number \<and> nunique (col_cells y) = 10 \<longrightarrow> fi_task_type r = ''regression'')"
proof -
  from assms have "fi_task_type r = infer_task_type y ''auto''"
    by (auto simp: feature_importance_fst Let_def split: if_splits sum.splits prod.splits)
  then show ?thesis by (auto simp: infer_task_type_def)
qed

theorem task_type_inference_witness:
  "0 < next_free sample_world \<and>
   getitem_col (heap sample_world 0) ''group'' = Inr group_col \<and>
   col_dtype group_col = Object \<and>
   (\<exists>r. fst (feature_importance_analysis sample_forest_lib 0 ''group'' ''auto'' sample_world) =
           Inr (FeatureImportanceResult r) \<and> fi_task_type r = ''classification'') \<and>
   0 < next_free score_world \<and>
   getitem_col (heap score_world 0) ''score'' = Inr ten_numbers \<and>
   col_dtype ten_numbers = Number \<and> nunique (col_cells ten_numbers) = 10 \<and>
   (\<exists>r. fst (feature_importance_analysis sample_forest_lib 0 ''score'' ''auto'' score_world) =
           Inr (FeatureImportanceResult r) \<and> fi_task_type r = ''regression'')"
proof -
  have alloc: "0 < next_free sample_world" by (simp add: sample_world_def)
  have obj: "col_dtype group_col = Object" by (simp add: group_col_def)
  from task_type_inference[OF alloc sample_target sample_importance] obj
  have first: "\<exists>r. fst (feature_importance_analysis sample_forest_lib 0 ''group'' ''auto'' sample_world) =
           Inr (FeatureImportanceResult r) \<and> fi_task_type r = ''classification''"
    using sample_importance by simp
  have alloc': "0 < next_free score_world" by (simp add: score_world_def)
  have target': "getitem_col (heap score_world 0) ''score'' = Inr ten_numbers"
    by (simp add: getitem_col_def score_world_def score_frame_def hours_col_def pages_col_def
          ten_numbers_def)
  have num: "col_dtype ten_numbers = Number" and ten: "nunique (col_cells ten_numbers) = 10"
    by (simp_all add: ten_numbers_def nunique_def dropna_def)
  from task_type_inference[OF alloc' target' score_importance] num ten
  have second: "\<exists>r. fst (feature_importance_analysis sample_forest_lib 0 ''score'' ''auto'' score_world) =
           Inr (FeatureImportanceResult r) \<and> fi_task_type r = ''regression''"
    using score_importance by simp
  from alloc sample_target obj first alloc' target' num ten second show ?thesis by simp
qed

text \<open>
  A numerical target with exactly ten distinct values is inferred as regression, by the
  inference alone and by the whole operation.
\<close>

theorem task_type_counterexample:
  "col_dtype ten_numbers = Number \<and> nunique (col_cells ten_numbers) = 10 \<and>
   infer_task_type ten_numbers ''auto'' = ''regression'' \<and>
   getitem_col (heap score_world 0) ''score'' = Inr ten_numbers \<and>
   fst (feature_importance_analysis sample_forest_lib 0 ''score'' ''auto'' score_world) =
     Inr (FeatureImportanceResult
       \<lparr>fi_task_type = ''regression'',
        fi_performance = RegressionPerformance 0 0 1,
        fi_feature_importance =
          [\<lparr>feature = ''pages'', importance = 3 / 4\<rparr>, \<lparr>feature = ''hours'', importance = 1 / 4\<rparr>],
        fi_shap_importance =
          [\<lparr>shap_feature = ''pages'', shap_importance = 3 / 4\<rparr>,
           \<lparr>shap_feature = ''hours'', shap_importance = 1 / 4\<rparr>],
        fi_top_features = [''pages'', ''hours'']\<rparr>)"
proof -
  have "getitem_col (heap score_world 0) ''score'' = Inr ten_numbers"
    by (simp add: getitem_col_def score_world_def score_frame_def hours_col_def pages_col_def
          ten_numbers_def)
  moreover have "col_dtype ten_numbers = Number \<and> nunique (col_cells ten_numbers) = 10 \<and>
      infer_task_type ten_numbers ''auto'' = ''regression''"
    by (simp add: ten_numbers_def infer_task_type_def nunique_def dropna_def)
  ultimately show ?thesis using score_importance by simp
qed

lemma shap_block_raises:
  "shap_block ml task model sp names = Inl e \<Longrightarrow>
     ranked_frame names (feature_importances model) = Inr fi \<Longrightarrow> False"
  by (simp add: shap_block_def split: sum.splits)

lemma train_model_shap_update [simp]:
  "train_model (ml\<lparr>shap_mean_abs := other\<rparr>) task sp = train_model ml task sp"
  by (simp add: train_model_def split: sum.splits)

lemma map_rows_eq:
  "map (\<lambda>x. (shap_feature x, shap_importance x)) (map (\<lambda>(f, v). \<lparr>shap_feature = f, shap_importance = v\<rparr>) rs)
   = map (\<lambda>x. (feature x, importance x)) (map (\<lambda>(f, v). \<lparr>feature = f, importance = v\<rparr>) rs)"
  by (induction rs) auto

lemma getitem_col_present: "getitem_col d n = Inr y \<Longrightarrow> n \<in> set (columns d)"
  by (auto simp: getitem_col_def columns_def find_Some_iff split: option.splits)

lemma feature_importance_raises_alike:
  assumes alloc: "df < next_free self"
  shows "isl (fst (feature_importance_analysis ml df target_column task_type self)) \<longleftrightarrow>
         isl (fst (feature_importance_analysis (ml\<lparr>shap_mean_abs := other\<rparr>) df target_column task_type self))"
proof -
  have indep: "isl (fst (feature_importance_analysis ml' df target_column task_type self)) =
      (let d = heap self df in
       target_column \<in> set (columns d) \<and>
       (case getitem_col d target_column of
          Inl e \<Rightarrow> True
        | Inr y \<Rightarrow>
            (case train_test_split ml (get_dummies ml (drop_columns d [target_column])) y of
               Inl e \<Rightarrow> True
             | Inr sp \<Rightarrow>
                 (case train_model ml (infer_task_type y task_type) sp of
                    Inl e \<Rightarrow> True
                  | Inr (model, perf) \<Rightarrow>
                      isl (ranked_frame (columns (get_dummies ml (drop_columns d [target_column])))
                             (feature_importances model))))))"
    if same: "get_dummies ml' = get_dummies ml" "train_test_split ml' = train_test_split ml"
      "train_model ml' = train_model ml" for ml'
    unfolding feature_importance_fst[OF alloc] Let_def same
    by (auto split: sum.splits prod.splits dest: shap_block_raises)
  show ?thesis
    using indep[of ml] indep[of "ml\<lparr>shap_mean_abs := other\<rparr>"]
    by (simp add: fun_eq_iff)
qed

lemma feature_importance_after_failure:
  assumes alloc: "df < next_free self"
    and target: "getitem_col (heap self df) target_column = Inr y"
    and enc: "X_encoded = get_dummies ml (drop_columns (heap self df) [target_column])"
    and split: "train_test_split ml X_encoded y = Inr sp"
    and train: "train_model ml (infer_task_type y task_type) sp = Inr (model, perf)"
    and fail: "shap_try ml (infer_task_type y task_type) model sp (columns X_encoded) = Inl e"
  shows "fst (feature_importance_analysis ml df target_column task_type self) =
           (case ranked_frame (columns X_encoded) (feature_importances model) of
              Inl e' \<Rightarrow> Inl e'
            | Inr ranked \<Rightarrow>
                Inr (FeatureImportanceResult
                      \<lparr>fi_task_type = infer_task_type y task_type,
                       fi_performance = perf,
                       fi_feature_importance = map (\<lambda>(f, v). \<lparr>feature = f, importance = v\<rparr>) ranked,
                       fi_shap_importance = map (\<lambda>(f, v). \<lparr>shap_feature = f, shap_importance = v\<rparr>) ranked,
                       fi_top_features = map fst (take 10 ranked)\<rparr>))"
proof -
  have present: "target_column \<in> set (columns (heap self df))"
    using target by (rule getitem_col_present)
  have blk: "shap_block ml (infer_task_type y task_type) model sp (columns X_encoded) =
      ranked_frame (columns X_encoded) (feature_importances model)"
    by (simp add: shap_block_def fail)
  show ?thesis
    unfolding feature_importance_fst[OF alloc] Let_def enc[symmetric]
    by (simp add: present target split train blk split: sum.splits)
qed

text \<open>
  Claim C3. Let the call reach the attribution step and let the step fail there, whatever
  the body of the \<^verbatim>\<open>try\<close> block raises (the attribution itself or the frame of its
  values). Then the operation raises exactly when it would raise with any other attribution
  routine, so the failure is not surfaced; a result it returns has, under
  \<^verbatim>\<open>shap_importance\<close>, the same features with the same numbers in the same order as
  under \<^verbatim>\<open>feature_importance\<close>; and it does return such a result when the model has
  one importance per feature.
\<close>

theorem shap_failure_falls_back:
  assumes alloc: "df < next_free self"
    and target: "getitem_col (heap self df) target_column = Inr y"
    and enc: "X_encoded = get_dummies ml (drop_columns (heap self df) [target_column])"
    and split: "train_test_split ml X_encoded y = Inr sp"
    and train: "train_model ml (infer_task_type y task_type) sp = Inr (model, perf)"
    and fail: "shap_try ml (infer_task_type y task_type) model sp (columns X_encoded) = Inl e"
  shows "(isl (fst (feature_importance_analysis ml df target_column task_type self)) \<longleftrightarrow>
          isl (fst (feature_importance_analysis (ml\<lparr>shap_mean_abs := other\<rparr>) df target_column task_type self))) \<and>
         (\<forall>r. fst (feature_importance_analysis ml df target_column task_type self) = Inr (FeatureImportanceResult r) \<longrightarrow>
            map (\<lambda>x. (shap_feature x, shap_importance x)) (fi_shap_importance r) =
            map (\<lambda>x. (feature x, importance x)) (fi_feature_importance r)) \<and>
         (length (feature_importances model) = length (columns X_encoded) \<longrightarrow>
            (\<exists>r. fst (feature_importance_analysis ml df target_column task_type self) = Inr (FeatureImportanceResult r) \<and>
                 map (\<lambda>x. (shap_feature x, shap_importance x)) (fi_shap_importance r) =
                 map (\<lambda>x. (feature x, importance x)) (fi_feature_importance r)))"
proof (intro conjI allI impI)
  note run = feature_importance_after_failure[OF alloc target enc split train fail]
  show "isl (fst (feature_importance_analysis ml df target_column task_type self)) \<longleftrightarrow>
        isl (fst (feature_importance_analysis (ml\<lparr>shap_mean_abs := other\<rparr>) df target_column task_type self))"
    by (rule feature_importance_raises_alike[OF alloc])
  {
    fix r
    assume "fst (feature_importance_analysis ml df target_column task_type self) = Inr (FeatureImportanceResult r)"
    then obtain ranked where
      "fi_feature_importance r = map (\<lambda>(f, v). \<lparr>feature = f, importance = v\<rparr>) ranked"
      and "fi_shap_importance r = map (\<lambda>(f, v). \<lparr>shap_feature = f, shap_importance = v\<rparr>) ranked"
      unfolding run by (auto split: sum.splits)
    then show "map (\<lambda>x. (shap_feature x, shap_importance x)) (fi_shap_importance r) =
            map (\<lambda>x. (feature x, importance x)) (fi_feature_importance r)"
      by (simp only: map_rows_eq)
  next
    assume "length (feature_importances model) = length (columns X_encoded)"
    then obtain ranked where
      "ranked_frame (columns X_encoded) (feature_importances model) = Inr ranked"
      by (simp add: ranked_frame_def)
    then have "fst (feature_importance_analysis ml df target_column task_type self) =
        Inr (FeatureImportanceResult
              \<lparr>fi_task_type = infer_task_type y task_type,
               fi_performance = perf,
               fi_feature_importance = map (\<lambda>(f, v). \<lparr>feature = f, importance = v\<rparr>) ranked,
               fi_shap_importance = map (\<lambda>(f, v). \<lparr>shap_feature = f, shap_importance = v\<rparr>) ranked,
               fi_top_features = map fst (take 10 ranked)\<rparr>)"
      unfolding run by simp
    moreover have
      "map (\<lambda>x. (shap_feature x, shap_importance x))
         (map (\<lambda>(f, v). \<lparr>shap_feature = f, shap_importance = v\<rparr>) ranked) =
       map (\<lambda>x. (feature x, importance x))
         (map (\<lambda>(f, v). \<lparr>feature = f, importance = v\<rparr>) ranked)"
      by (rule map_rows_eq)
    ultimately show "\<exists>r. fst (feature_importance_analysis ml df target_column task_type self) = Inr (FeatureImportanceResult r) \<and>
                 map (\<lambda>x. (shap_feature x, shap_importance x)) (fi_shap_importance r) =
                 map (\<lambda>x. (feature x, importance x)) (fi_feature_importance r)"
      by simp
  }
qed

theorem shap_failure_falls_back_witness:
  "0 < next_free sample_world \<and>
   getitem_col (heap sample_world 0) ''group'' = Inr group_col \<and>
   shap_mean_abs shape_forest_lib ''classification''
     \<lparr>feature_importances = [1 / 4, 3 / 4], forest_handle = 0\<rparr>
     \<lparr>cols = [height_col, weight_col], nrows = 5\<rparr> = Inr [1] \<and>
   shap_try shape_forest_lib (infer_task_type group_col ''auto'')
     \<lparr>feature_importances = [1 / 4, 3 / 4], forest_handle = 0\<rparr>
     \<lparr>X_train = \<lparr>cols = [height_col, weight_col], nrows = 5\<rparr>,
      X_test = \<lparr>cols = [height_col, weight_col], nrows = 5\<rparr>,
      y_train = col_cells group_col, y_test = col_cells group_col\<rparr>
     (columns \<lparr>cols = [height_col, weight_col], nrows = 5\<rparr>) = Inl ValueError \<and>
   (\<exists>r. fst (feature_importance_analysis shape_forest_lib 0 ''group'' ''auto'' sample_world) =
           Inr (FeatureImportanceResult r) \<and>
         map (\<lambda>x. (shap_feature x, shap_importance x)) (fi_shap_importance r) =
           map (\<lambda>x. (feature x, importance x)) (fi_feature_importance r))"
proof -
  let ?X = "\<lparr>cols = [height_col, weight_col], nrows = 5\<rparr>"
  let ?sp = "\<lparr>X_train = ?X, X_test = ?X, y_train = col_cells group_col, y_test = col_cells group_col\<rparr>"
  let ?model = "\<lparr>feature_importances = [1 / 4, 3 / 4], forest_handle = 0\<rparr>"
  have alloc: "0 < next_free sample_world" by (simp add: sample_world_def)
  have enc: "?X = get_dummies shape_forest_lib (drop_columns (heap sample_world 0) [''group''])"
    by (simp add: shape_forest_lib_def sample_defs drop_columns_def select_dtypes_def)
  have split: "train_test_split shape_forest_lib ?X group_col = Inr ?sp"
    by (simp add: shape_forest_lib_def)
  have train: "train_model shape_forest_lib (infer_task_type group_col ''auto'') ?sp =
      Inr (?model, ClassificationPerformance [] 1)"
    by (simp add: sample_task train_model_def shape_forest_lib_def)
  have names: "columns ?X = [''height'', ''weight'']"
    by (simp add: columns_def height_col_def weight_col_def)
  have attr: "shap_mean_abs shape_forest_lib ''classification'' ?model ?X = Inr [1]"
    by (simp add: shape_forest_lib_def)
  have fail: "shap_try shape_forest_lib (infer_task_type group_col ''auto'') ?model ?sp (columns ?X) =
      Inl ValueError"
    by (simp add: shap_try_def shape_forest_lib_def names ranked_frame_def)
  have one_each: "length (feature_importances ?model) = length (columns ?X)"
    by (simp add: names)
  from shap_failure_falls_back[OF alloc sample_target enc split train fail] one_each
  have "\<exists>r. fst (feature_importance_analysis shape_forest_lib 0 ''group'' ''auto'' sample_world) =
           Inr (FeatureImportanceResult r) \<and>
         map (\<lambda>x. (shap_feature x, shap_importance x)) (fi_shap_importance r) =
           map (\<lambda>x. (feature x, importance x)) (fi_feature_importance r)"
    by blast
  with alloc sample_target attr fail show ?thesis by blast
qed

subsection \<open>Strong correlations\<close>

lemma iloc_square:
  "square_frame m \<Longrightarrow> i < length (corr_columns m) \<Longrightarrow> j < length (corr_columns m) \<Longrightarrow>
     iloc m i j = Inr (corr_rows m ! i ! j)"
  by (auto simp: square_frame_def iloc_def list_all_length)

lemma strong_row_eq:
  assumes "square_frame m" "i < length (corr_columns m)" "\<forall>j\<in>set js. j < length (corr_columns m)"
  shows "strong_row m t i js acc =
           Inr (acc @ map (entry_for m) (filter (strong_pair m t) (map (Pair i) js)))"
  using assms(3)
proof (induction js arbitrary: acc)
  case Nil
  then show ?case by simp
next
  case (Cons j js)
  then have j: "j < length (corr_columns m)" and js: "\<forall>j\<in>set js. j < length (corr_columns m)"
    by simp_all
  show ?case
    using iloc_square[OF assms(1,2) j] Cons.IH[OF js]
    by (simp add: strong_pair_def entry_for_def coefficient_def split: option.splits)
qed

lemma strong_rows_eq:
  assumes "square_frame m" "\<forall>i\<in>set is. i < length (corr_columns m)"
  shows "strong_rows m t is acc =
           Inr (acc @ map (entry_for m) (filter (strong_pair m t)
                  (concat (map (\<lambda>i. map (Pair i) [Suc i..<length (corr_columns m)]) is))))"
  using assms(2)
proof (induction "is" arbitrary: acc)
  case Nil
  then show ?case by simp
next
  case (Cons i "is")
  then have i: "i < length (corr_columns m)" and rest: "\<forall>i\<in>set is. i < length (corr_columns m)"
    by simp_all
  have "strong_row m t i [Suc i..<length (corr_columns m)] acc =
          Inr (acc @ map (entry_for m) (filter (strong_pair m t) (map (Pair i) [Suc i..<length (corr_columns m)])))"
    by (rule strong_row_eq[OF assms(1) i]) simp
  then show ?case using Cons.IH[OF rest] by simp
qed

lemma distinct_index_pairs:
  "distinct (concat (map (\<lambda>i. map (Pair i) [Suc i..<n]) [0..<n]))"
proof -
  have "distinct is \<Longrightarrow> distinct (concat (map (\<lambda>i. map (Pair i) [Suc i..<n]) is))" for "is"
    by (induction "is") (auto simp: distinct_map inj_on_def)
  then show ?thesis by simp
qed

lemma set_index_pairs:
  "set (concat (map (\<lambda>i. map (Pair i) [Suc i..<n]) [0..<n])) = {(i, j). i < j \<and> j < n}"
  by force

lemma mset_strong_pairs:
  "mset (filter P (concat (map (\<lambda>i. map (Pair i) [Suc i..<n]) [0..<n]))) =
     mset_set {p. fst p < snd p \<and> snd p < n \<and> P p}"
proof -
  let ?ps = "concat (map (\<lambda>i. map (Pair i) [Suc i..<n]) [0..<n])"
  have "distinct (filter P ?ps)" using distinct_index_pairs by (rule distinct_filter)
  then have "mset (filter P ?ps) = mset_set (set (filter P ?ps))"
    by (rule mset_set_set[symmetric])
  moreover have "set (filter P ?ps) = {p. fst p < snd p \<and> snd p < n \<and> P p}"
    using set_index_pairs[of n] by auto
  ultimately show ?thesis by simp
qed

lemma sorted_reverse_props:
  "mset (sorted_reverse f xs) = mset xs \<and>
   sorted_wrt (\<lambda>a b. f a \<ge> f b) (sorted_reverse f xs)"
proof -
  have "sorted (map (\<lambda>x. - f x) (sort_key (\<lambda>x. - f x) xs))" by (rule sorted_sort_key)
  then have "sorted_wrt (\<lambda>a b. f a \<ge> f b) (sort_key (\<lambda>x. - f x) xs)"
    by (simp add: sorted_map)
  then show ?thesis by (simp add: sorted_reverse_def)
qed

lemma entry_for_fields:
  "variable1 (entry_for m p) = corr_columns m ! fst p"
  "variable2 (entry_for m p) = corr_columns m ! snd p"
  "correlation (entry_for m p) = coefficient m (fst p) (snd p)"
  "strength (entry_for m p) =
     (if \<bar>coefficient m (fst p) (snd p)\<bar> \<ge> 9 / 10 then ''very strong'' else ''strong'')"
  by (simp_all add: entry_for_def)

lemma strong_pair_coefficient: "strong_pair m t p \<Longrightarrow> \<bar>coefficient m (fst p) (snd p)\<bar> \<ge> t"
  by (simp add: strong_pair_def coefficient_def split: option.splits)

lemma find_strong_correlations_eq:
  assumes "square_frame m"
  shows "find_strong_correlations m t =
           Inr (sorted_reverse (\<lambda>x. \<bar>correlation x\<bar>)
                 (map (entry_for m) (filter (strong_pair m t)
                    (concat (map (\<lambda>i. map (Pair i) [Suc i..<length (corr_columns m)])
                       [0..<length (corr_columns m)])))))"
  using strong_rows_eq[OF assms, of "[0..<length (corr_columns m)]" t "[]"]
  by (simp add: find_strong_correlations_def)

lemma sample_corr_square: "square_frame sample_corr"
  by (simp add: square_frame_def sample_corr_def)

lemma sample_strong:
  "find_strong_correlations sample_corr (7 / 10) =
     Inr [\<lparr>variable1 = ''b'', variable2 = ''c'', correlation = - 19 / 20, strength = ''very strong''\<rparr>,
          \<lparr>variable1 = ''a'', variable2 = ''b'', correlation = 3 / 4, strength = ''strong''\<rparr>]"
  by (simp add: find_strong_correlations_def sample_corr_def upt_rec iloc_def sorted_reverse_def)

text \<open>
  Claim C4. For a correlation matrix, the list of strong correlations holds exactly the pairs
  of positions i < j whose coefficient has absolute value at least 0.70, each once, with the
  two column labels and the coefficient; it is sorted by non-increasing absolute coefficient;
  and an entry is labelled "very strong" when its absolute coefficient is at least 0.90 and
  "strong" otherwise.
\<close>

theorem strong_correlations_exact:
  assumes "square_frame m"
  shows "\<exists>rs. find_strong_correlations m (7 / 10) = Inr rs \<and>
           mset (map (\<lambda>r. (variable1 r, variable2 r, correlation r)) rs) =
             image_mset (\<lambda>p. (corr_columns m ! fst p, corr_columns m ! snd p, coefficient m (fst p) (snd p)))
               (mset_set {p. fst p < snd p \<and> snd p < length (corr_columns m) \<and> strong_pair m (7 / 10) p}) \<and>
           sorted_wrt (\<lambda>a b. \<bar>correlation a\<bar> \<ge> \<bar>correlation b\<bar>) rs \<and>
           (\<forall>r\<in>set rs. \<bar>correlation r\<bar> \<ge> 7 / 10 \<and>
              strength r = (if \<bar>correlation r\<bar> \<ge> 9 / 10 then ''very strong'' else ''strong''))"
proof -
  define n where "n = length (corr_columns m)"
  define ps where "ps = filter (strong_pair m (7 / 10)) (concat (map (\<lambda>i. map (Pair i) [Suc i..<n]) [0..<n]))"
  define es where "es = map (entry_for m) ps"
  define rs where "rs = sorted_reverse (\<lambda>x. \<bar>correlation x\<bar>) es"
  have res: "find_strong_correlations m (7 / 10) = Inr rs"
    unfolding rs_def es_def ps_def n_def by (rule find_strong_correlations_eq[OF assms])
  have ms: "mset rs = mset es"
    unfolding rs_def using sorted_reverse_props[of "\<lambda>x. \<bar>correlation x\<bar>" es] by blast
  have srt: "sorted_wrt (\<lambda>a b. \<bar>correlation a\<bar> \<ge> \<bar>correlation b\<bar>) rs"
    unfolding rs_def using sorted_reverse_props[of "\<lambda>x. \<bar>correlation x\<bar>" es] by blast
  have mps: "mset ps = mset_set {p. fst p < snd p \<and> snd p < n \<and> strong_pair m (7 / 10) p}"
    unfolding ps_def by (rule mset_strong_pairs)
  have "map (\<lambda>r. (variable1 r, variable2 r, correlation r)) es =
          map (\<lambda>p. (corr_columns m ! fst p, corr_columns m ! snd p, coefficient m (fst p) (snd p))) ps"
    unfolding es_def by (simp add: entry_for_fields)
  then have "mset (map (\<lambda>r. (variable1 r, variable2 r, correlation r)) es) =
          image_mset (\<lambda>p. (corr_columns m ! fst p, corr_columns m ! snd p, coefficient m (fst p) (snd p))) (mset ps)"
    by simp
  moreover have "mset (map (\<lambda>r. (variable1 r, variable2 r, correlation r)) rs) =
          mset (map (\<lambda>r. (variable1 r, variable2 r, correlation r)) es)"
    using ms by (simp only: mset_map)
  ultimately have triples: "mset (map (\<lambda>r. (variable1 r, variable2 r, correlation r)) rs) =
      image_mset (\<lambda>p. (corr_columns m ! fst p, corr_columns m ! snd p, coefficient m (fst p) (snd p)))
        (mset_set {p. fst p < snd p \<and> snd p < length (corr_columns m) \<and> strong_pair m (7 / 10) p})"
    using mps by (simp only: n_def)
  have "set rs = set es" using ms by (rule mset_eq_setD)
  then have lab: "\<forall>r\<in>set rs. \<bar>correlation r\<bar> \<ge> 7 / 10 \<and>
              strength r = (if \<bar>correlation r\<bar> \<ge> 9 / 10 then ''very strong'' else ''strong'')"
    unfolding es_def ps_def
    by (auto simp: entry_for_fields dest: strong_pair_coefficient)
  show ?thesis
    apply (rule exI[of _ rs])
    apply (intro conjI)
       apply (rule res)
      apply (rule triples)
     apply (rule srt)
    apply (rule lab)
    done
qed

theorem strong_correlations_exact_witness:
  "square_frame sample_corr \<and>
   find_strong_correlations sample_corr (7 / 10) =
     Inr [\<lparr>variable1 = ''b'', variable2 = ''c'', correlation = - 19 / 20, strength = ''very strong''\<rparr>,
          \<lparr>variable1 = ''a'', variable2 = ''b'', correlation = 3 / 4, strength = ''strong''\<rparr>] \<and>
   sorted_wrt (\<lambda>a b. \<bar>correlation a\<bar> \<ge> \<bar>correlation b\<bar>)
     [\<lparr>variable1 = ''b'', variable2 = ''c'', correlation = - 19 / 20, strength = ''very strong''\<rparr>,
      \<lparr>variable1 = ''a'', variable2 = ''b'', correlation = 3 / 4, strength = ''strong''\<rparr>]"
proof -
  from strong_correlations_exact[OF sample_corr_square] obtain rs where
    "find_strong_correlations sample_corr (7 / 10) = Inr rs"
    and "sorted_wrt (\<lambda>a b. \<bar>correlation a\<bar> \<ge> \<bar>correlation b\<bar>) rs"
    by blast
  with sample_strong sample_corr_square show ?thesis by simp
qed

subsection \<open>Hypothesis tests\<close>

lemma test_pair_cases:
  "test_pair st cat_col num_col =
     (let groups = filter (\<lambda>g. 2 \<le> length g) (grouped_values cat_col num_col) in
      if length groups < 2 then None
      else if length groups = 2 then
        Some (case ttest_ind st (groups ! 0) (groups ! 1) of
                Inl e \<Rightarrow> TestError (str e)
              | Inr (stat, p_val) \<Rightarrow> TestEntry ''t-test'' stat p_val (p_val < 5 / 100) 2)
      else
        Some (case f_oneway st groups of
                Inl e \<Rightarrow> TestError (str e)
              | Inr (stat, p_val) \<Rightarrow> TestEntry ''ANOVA'' stat p_val (p_val < 5 / 100) (length groups)))"
proof -
  have eq: "(\<lambda>g::real list. 1 < length g) = (\<lambda>g. 2 \<le> length g)" by auto
  show ?thesis
    unfolding test_pair_def eq Let_def
    by (simp split: sum.splits prod.splits)
qed

lemma tests_for_cat_other:
  "\<forall>n\<in>set nums. pair_key c n \<noteq> k \<Longrightarrow> tests_for_cat st c nums tests k = tests k"
  by (induction nums arbitrary: tests) (auto split: option.splits)

lemma tests_for_cat_unique:
  assumes "n \<in> set nums" and "\<forall>n'\<in>set nums. pair_key c n' = pair_key c n \<longrightarrow> n' = n"
  shows "tests_for_cat st c nums tests (pair_key c n) =
           (case test_pair st c n of None \<Rightarrow> tests (pair_key c n) | Some e \<Rightarrow> Some e)"
  using assms
proof (induction nums arbitrary: tests)
  case Nil
  then show ?case by simp
next
  case (Cons a nums)
  let ?tests' = "case test_pair st c a of None \<Rightarrow> tests | Some entry \<Rightarrow> tests(pair_key c a \<mapsto> entry)"
  have uniq: "\<forall>n'\<in>set nums. pair_key c n' = pair_key c n \<longrightarrow> n' = n" using Cons.prems(2) by simp
  have step: "tests_for_cat st c (a # nums) tests (pair_key c n) = tests_for_cat st c nums ?tests' (pair_key c n)"
    by simp
  show ?case
  proof (cases "n \<in> set nums")
    case True
    have "tests_for_cat st c nums ?tests' (pair_key c n) =
            (case test_pair st c n of None \<Rightarrow> ?tests' (pair_key c n) | Some e \<Rightarrow> Some e)"
      by (rule Cons.IH[OF True uniq])
    moreover have "test_pair st c n = None \<Longrightarrow> ?tests' (pair_key c n) = tests (pair_key c n)"
      using Cons.prems(2) by (auto split: option.splits)
    ultimately show ?thesis unfolding step by (auto split: option.splits)
  next
    case False
    with Cons.prems(1) have an: "a = n" by simp
    from False uniq have "\<forall>n'\<in>set nums. pair_key c n' \<noteq> pair_key c n" by auto
    then have "tests_for_cat st c nums ?tests' (pair_key c n) = ?tests' (pair_key c n)"
      by (rule tests_for_cat_other)
    then show ?thesis unfolding step using an by (auto split: option.splits)
  qed
qed

lemma tests_for_cats_other:
  "\<forall>c\<in>set cats. \<forall>n\<in>set nums. pair_key c n \<noteq> k \<Longrightarrow> tests_for_cats st cats nums tests k = tests k"
  by (induction cats arbitrary: tests) (auto simp: tests_for_cat_other)

lemma tests_for_cats_unique:
  assumes "c \<in> set cats" and "n \<in> set nums"
    and "\<forall>c'\<in>set cats. \<forall>n'\<in>set nums. pair_key c' n' = pair_key c n \<longrightarrow> c' = c \<and> n' = n"
  shows "tests_for_cats st cats nums tests (pair_key c n) =
           (case test_pair st c n of None \<Rightarrow> tests (pair_key c n) | Some e \<Rightarrow> Some e)"
  using assms(1,3)
proof (induction cats arbitrary: tests)
  case Nil
  then show ?case by simp
next
  case (Cons a cats)
  let ?tests' = "tests_for_cat st a nums tests"
  have uniq: "\<forall>c'\<in>set cats. \<forall>n'\<in>set nums. pair_key c' n' = pair_key c n \<longrightarrow> c' = c \<and> n' = n"
    using Cons.prems(2) by simp
  have here: "a = c \<Longrightarrow> ?tests' (pair_key c n) =
      (case test_pair st c n of None \<Rightarrow> tests (pair_key c n) | Some e \<Rightarrow> Some e)"
    using tests_for_cat_unique[OF assms(2), of c st tests] Cons.prems(2) by auto
  have there: "a \<noteq> c \<Longrightarrow> ?tests' (pair_key c n) = tests (pair_key c n)"
    using tests_for_cat_other[of nums a "pair_key c n" st tests] Cons.prems(2) by auto
  show ?case
  proof (cases "c \<in> set cats")
    case True
    have "tests_for_cats st cats nums ?tests' (pair_key c n) =
            (case test_pair st c n of None \<Rightarrow> ?tests' (pair_key c n) | Some e \<Rightarrow> Some e)"
      by (rule Cons.IH[OF True uniq])
    then show ?thesis using here there by (cases "a = c") (auto split: option.splits)
  next
    case False
    with Cons.prems(1) have ac: "a = c" by simp
    from False uniq have "\<forall>c'\<in>set cats. \<forall>n'\<in>set nums. pair_key c' n' \<noteq> pair_key c n" by auto
    then have "tests_for_cats st cats nums ?tests' (pair_key c n) = ?tests' (pair_key c n)"
      by (rule tests_for_cats_other)
    then show ?thesis using here[OF ac] by simp
  qed
qed

lemma perform_hypothesis_tests_lookup:
  assumes "cat_col \<in> set (cols (select_dtypes [Object, Category] df))"
    and "num_col \<in> set (cols (select_dtypes [Number] df))"
    and "\<forall>c\<in>set (cols (select_dtypes [Object, Category] df)).
           \<forall>n\<in>set (cols (select_dtypes [Number] df)).
             pair_key c n = pair_key cat_col num_col \<longrightarrow> c = cat_col \<and> n = num_col"
  shows "perform_hypothesis_tests st df (pair_key cat_col num_col) = test_pair st cat_col num_col"
  using tests_for_cats_unique[OF assms, of st Map.empty]
  by (simp add: perform_hypothesis_tests_def Let_def split: option.splits)

lemma tests_for_cat_source:
  "tests_for_cat st c nums tests k = Some e \<Longrightarrow>
     tests k = Some e \<or> (\<exists>n\<in>set nums. pair_key c n = k \<and> test_pair st c n = Some e)"
proof (induction nums arbitrary: tests)
  case Nil
  then show ?case by simp
next
  case (Cons a nums)
  let ?tests' = "case test_pair st c a of None \<Rightarrow> tests | Some entry \<Rightarrow> tests(pair_key c a \<mapsto> entry)"
  from Cons.prems have "tests_for_cat st c nums ?tests' k = Some e" by simp
  from Cons.IH[OF this] have
    "?tests' k = Some e \<or> (\<exists>n\<in>set nums. pair_key c n = k \<and> test_pair st c n = Some e)" .
  moreover have "?tests' k = Some e \<Longrightarrow>
      tests k = Some e \<or> (pair_key c a = k \<and> test_pair st c a = Some e)"
    by (auto split: option.splits if_splits)
  ultimately show ?case by auto
qed

lemma tests_for_cats_source:
  "tests_for_cats st cats nums tests k = Some e \<Longrightarrow>
     tests k = Some e \<or>
     (\<exists>c\<in>set cats. \<exists>n\<in>set nums. pair_key c n = k \<and> test_pair st c n = Some e)"
proof (induction cats arbitrary: tests)
  case Nil
  then show ?case by simp
next
  case (Cons a cats)
  from Cons.prems have "tests_for_cats st cats nums (tests_for_cat st a nums tests) k = Some e"
    by simp
  from Cons.IH[OF this] have
    "tests_for_cat st a nums tests k = Some e \<or>
     (\<exists>c\<in>set cats. \<exists>n\<in>set nums. pair_key c n = k \<and> test_pair st c n = Some e)" .
  with tests_for_cat_source[of st a nums tests k e] show ?case by auto
qed

lemma tests_for_cat_keeps:
  "tests k \<noteq> None \<Longrightarrow> tests_for_cat st c nums tests k \<noteq> None"
  by (induction nums arbitrary: tests) (auto split: option.splits)

lemma tests_for_cat_emits:
  "n \<in> set nums \<Longrightarrow> test_pair st c n \<noteq> None \<Longrightarrow>
     tests_for_cat st c nums tests (pair_key c n) \<noteq> None"
proof (induction nums arbitrary: tests)
  case Nil
  then show ?case by simp
next
  case (Cons a nums)
  let ?tests' = "case test_pair st c a of None \<Rightarrow> tests | Some entry \<Rightarrow> tests(pair_key c a \<mapsto> entry)"
  show ?case
  proof (cases "a = n")
    case True
    with Cons.prems(2) have "?tests' (pair_key c n) \<noteq> None" by (auto split: option.splits)
    then have "tests_for_cat st c nums ?tests' (pair_key c n) \<noteq> None"
      by (rule tests_for_cat_keeps)
    then show ?thesis by simp
  next
    case False
    with Cons.prems(1) have "n \<in> set nums" by simp
    from Cons.IH[OF this Cons.prems(2)] show ?thesis by simp
  qed
qed

lemma tests_for_cats_keeps:
  "tests k \<noteq> None \<Longrightarrow> tests_for_cats st cats nums tests k \<noteq> None"
proof (induction cats arbitrary: tests)
  case Nil
  then show ?case by simp
next
  case (Cons a cats)
  from Cons.prems have "tests_for_cat st a nums tests k \<noteq> None"
    by (rule tests_for_cat_keeps)
  from Cons.IH[of "tests_for_cat st a nums tests"] this show ?case by simp
qed

lemma tests_for_cats_emits:
  "c \<in> set cats \<Longrightarrow> n \<in> set nums \<Longrightarrow> test_pair st c n \<noteq> None \<Longrightarrow>
     tests_for_cats st cats nums tests (pair_key c n) \<noteq> None"
proof (induction cats arbitrary: tests)
  case Nil
  then show ?case by simp
next
  case (Cons a cats)
  show ?case
  proof (cases "a = c")
    case True
    from tests_for_cat_emits[OF Cons.prems(2,3)]
    have "tests_for_cat st c nums tests (pair_key c n) \<noteq> None" .
    then have "tests_for_cats st cats nums (tests_for_cat st c nums tests) (pair_key c n) \<noteq> None"
      by (rule tests_for_cats_keeps)
    with True show ?thesis by simp
  next
    case False
    with Cons.prems(1) have "c \<in> set cats" by simp
    from Cons.IH[OF this Cons.prems(2,3)] show ?thesis by simp
  qed
qed

lemma test_pair_groups:
  "test_pair st c n = Some e \<Longrightarrow> 2 \<le> length (filter (\<lambda>g. 2 \<le> length g) (grouped_values c n))"
  unfolding test_pair_cases Let_def by (simp split: if_splits)

lemma sample_groups:
  "grouped_values group_col weight_col = [[2, 6], [4, 8], [16]]"
  by (simp add: grouped_values_def group_keys_def group_col_def weight_col_def dropna_def
        cell_key_def numbers_def)

lemma sample_height_groups:
  "grouped_values group_col height_col = [[1, 3], [4], [8]]"
  by (simp add: grouped_values_def group_keys_def group_col_def height_col_def dropna_def
        cell_key_def numbers_def)

lemma sample_level_groups:
  "grouped_values level_col weight_col = [[16], [2, 6], [4, 8], []]"
  by (simp add: grouped_values_def group_keys_def level_col_def weight_col_def numbers_def)

lemma sample_cats: "cols (select_dtypes [Object, Category] sample_frame) = [group_col]"
  by (simp add: select_dtypes_def sample_frame_def group_col_def height_col_def weight_col_def)

lemma sample_nums: "cols (select_dtypes [Number] sample_frame) = [height_col, weight_col]"
  by (simp add: select_dtypes_def sample_frame_def group_col_def height_col_def weight_col_def)

text \<open>
  Claim C5. For every categorical and numerical column, with the numerical values
  partitioned by category and the groups of fewer than two observations dropped:
  with fewer than two groups left the dispatcher runs no test and the pair's turn leaves
  the dictionary of tests as it was; with exactly two it runs the two-sample t-test on
  them, with three or more the one-way ANOVA on all of them, and the pair's turn stores
  the outcome under the pair's key. An entry that names a test names the t-test exactly
  when two groups are left and the ANOVA exactly when three or more are. Every entry of
  the dictionary returned is the outcome for a pair of the Dataset with that key and at
  least two groups left, and every such pair has an entry under its key.
\<close>

theorem hypothesis_test_dispatch:
  assumes "groups = filter (\<lambda>g. 2 \<le> length g) (grouped_values cat_col num_col)"
  shows "(length groups < 2 \<longrightarrow>
            test_pair st cat_col num_col = None \<and>
            tests_for_cat st cat_col [num_col] tests = tests) \<and>
         (length groups = 2 \<longrightarrow>
            test_pair st cat_col num_col =
              Some (case ttest_ind st (groups ! 0) (groups ! 1) of
                      Inl e \<Rightarrow> TestError (str e)
                    | Inr (stat, p_val) \<Rightarrow> TestEntry ''t-test'' stat p_val (p_val < 5 / 100) 2)) \<and>
         (3 \<le> length groups \<longrightarrow>
            test_pair st cat_col num_col =
              Some (case f_oneway st groups of
                      Inl e \<Rightarrow> TestError (str e)
                    | Inr (stat, p_val) \<Rightarrow>
                        TestEntry ''ANOVA'' stat p_val (p_val < 5 / 100) (length groups))) \<and>
         (2 \<le> length groups \<longrightarrow>
            (\<exists>entry. test_pair st cat_col num_col = Some entry \<and>
               tests_for_cat st cat_col [num_col] tests = tests(pair_key cat_col num_col \<mapsto> entry))) \<and>
         (\<forall>name stat p_val sig k.
            test_pair st cat_col num_col = Some (TestEntry name stat p_val sig k) \<longrightarrow>
              k = length groups \<and>
              (name = ''t-test'' \<longleftrightarrow> length groups = 2) \<and>
              (name = ''ANOVA'' \<longleftrightarrow> 3 \<le> length groups)) \<and>
         (\<forall>key entry. perform_hypothesis_tests st df key = Some entry \<longrightarrow>
            (\<exists>c\<in>set (cols (select_dtypes [Object, Category] df)).
             \<exists>n\<in>set (cols (select_dtypes [Number] df)).
               pair_key c n = key \<and> test_pair st c n = Some entry \<and>
               2 \<le> length (filter (\<lambda>g. 2 \<le> length g) (grouped_values c n)))) \<and>
         (cat_col \<in> set (cols (select_dtypes [Object, Category] df)) \<and>
          num_col \<in> set (cols (select_dtypes [Number] df)) \<and> 2 \<le> length groups \<longrightarrow>
            perform_hypothesis_tests st df (pair_key cat_col num_col) \<noteq> None)"
proof -
  note tp = test_pair_cases[of st cat_col num_col, unfolded Let_def, folded assms]
  have few: "length groups < 2 \<longrightarrow>
      test_pair st cat_col num_col = None \<and> tests_for_cat st cat_col [num_col] tests = tests"
    by (simp add: tp)
  have two: "length groups = 2 \<longrightarrow>
      test_pair st cat_col num_col =
        Some (case ttest_ind st (groups ! 0) (groups ! 1) of
                Inl e \<Rightarrow> TestError (str e)
              | Inr (stat, p_val) \<Rightarrow> TestEntry ''t-test'' stat p_val (p_val < 5 / 100) 2)"
    by (simp add: tp)
  have more: "3 \<le> length groups \<longrightarrow>
      test_pair st cat_col num_col =
        Some (case f_oneway st groups of
                Inl e \<Rightarrow> TestError (str e)
              | Inr (stat, p_val) \<Rightarrow>
                  TestEntry ''ANOVA'' stat p_val (p_val < 5 / 100) (length groups))"
    by (simp add: tp)
  have stored: "2 \<le> length groups \<longrightarrow>
      (\<exists>entry. test_pair st cat_col num_col = Some entry \<and>
         tests_for_cat st cat_col [num_col] tests = tests(pair_key cat_col num_col \<mapsto> entry))"
    by (simp add: tp)
  have named: "\<forall>name stat p_val sig k.
      test_pair st cat_col num_col = Some (TestEntry name stat p_val sig k) \<longrightarrow>
        k = length groups \<and>
        (name = ''t-test'' \<longleftrightarrow> length groups = 2) \<and>
        (name = ''ANOVA'' \<longleftrightarrow> 3 \<le> length groups)"
    unfolding tp by (auto split: sum.splits prod.splits if_splits)
  have source: "\<forall>key entry. perform_hypothesis_tests st df key = Some entry \<longrightarrow>
      (\<exists>c\<in>set (cols (select_dtypes [Object, Category] df)).
       \<exists>n\<in>set (cols (select_dtypes [Number] df)).
         pair_key c n = key \<and> test_pair st c n = Some entry \<and>
         2 \<le> length (filter (\<lambda>g. 2 \<le> length g) (grouped_values c n)))"
  proof (intro allI impI)
    fix key entry
    assume "perform_hypothesis_tests st df key = Some entry"
    then have "tests_for_cats st (cols (select_dtypes [Object, Category] df))
        (cols (select_dtypes [Number] df)) Map.empty key = Some entry"
      by (simp add: perform_hypothesis_tests_def Let_def)
    from tests_for_cats_source[OF this]
    obtain c n where "c \<in> set (cols (select_dtypes [Object, Category] df))"
      and "n \<in> set (cols (select_dtypes [Number] df))"
      and "pair_key c n = key" and "test_pair st c n = Some entry"
      by auto
    with test_pair_groups[of st c n entry]
    show "\<exists>c\<in>set (cols (select_dtypes [Object, Category] df)).
       \<exists>n\<in>set (cols (select_dtypes [Number] df)).
         pair_key c n = key \<and> test_pair st c n = Some entry \<and>
         2 \<le> length (filter (\<lambda>g. 2 \<le> length g) (grouped_values c n))"
      by blast
  qed
  have emitted: "cat_col \<in> set (cols (select_dtypes [Object, Category] df)) \<and>
      num_col \<in> set (cols (select_dtypes [Number] df)) \<and> 2 \<le> length groups \<longrightarrow>
        perform_hypothesis_tests st df (pair_key cat_col num_col) \<noteq> None"
  proof (intro impI)
    assume a: "cat_col \<in> set (cols (select_dtypes [Object, Category] df)) \<and>
      num_col \<in> set (cols (select_dtypes [Number] df)) \<and> 2 \<le> length groups"
    with stored have "test_pair st cat_col num_col \<noteq> None" by auto
    with a tests_for_cats_emits[of cat_col "cols (select_dtypes [Object, Category] df)" num_col
        "cols (select_dtypes [Number] df)" st Map.empty]
    show "perform_hypothesis_tests st df (pair_key cat_col num_col) \<noteq> None"
      by (simp add: perform_hypothesis_tests_def Let_def)
  qed
  from few two more stored named source emitted show ?thesis by blast
qed

theorem hypothesis_test_dispatch_witness:
  "filter (\<lambda>g. 2 \<le> length g) (grouped_values group_col weight_col) = [[2, 6], [4, 8]] \<and>
   test_pair sample_stats_lib group_col weight_col = Some (TestEntry ''t-test'' (- 1) (1 / 100) True 2) \<and>
   group_col \<in> set (cols (select_dtypes [Object, Category] sample_frame)) \<and>
   weight_col \<in> set (cols (select_dtypes [Number] sample_frame)) \<and>
   perform_hypothesis_tests sample_stats_lib sample_frame (pair_key group_col weight_col) \<noteq> None \<and>
   filter (\<lambda>g. 2 \<le> length g) (grouped_values group_col height_col) = [[1, 3]] \<and>
   test_pair sample_stats_lib group_col height_col = None \<and>
   filter (\<lambda>g. 2 \<le> length g) (grouped_values level_col weight_col) = [[2, 6], [4, 8]] \<and>
   test_pair sample_stats_lib level_col weight_col = Some (TestEntry ''t-test'' (- 1) (1 / 100) True 2)"
proof -
  have g1: "[[2, 6], [4, 8]] = filter (\<lambda>g. 2 \<le> length g) (grouped_values group_col weight_col)"
    by (simp add: sample_groups)
  have g2: "[[1, 3]] = filter (\<lambda>g. 2 \<le> length g) (grouped_values group_col height_col)"
    by (simp add: sample_height_groups)
  have g3: "[[2, 6], [4, 8]] = filter (\<lambda>g. 2 \<le> length g) (grouped_values level_col weight_col)"
    by (simp add: sample_level_groups)
  have c: "group_col \<in> set (cols (select_dtypes [Object, Category] sample_frame))"
    by (simp add: sample_cats)
  have n: "weight_col \<in> set (cols (select_dtypes [Number] sample_frame))"
    by (simp add: sample_nums)
  from hypothesis_test_dispatch[OF g1, of sample_stats_lib _ sample_frame] c n
  have first: "test_pair sample_stats_lib group_col weight_col =
        Some (TestEntry ''t-test'' (- 1) (1 / 100) True 2) \<and>
      perform_hypothesis_tests sample_stats_lib sample_frame (pair_key group_col weight_col) \<noteq> None"
    by (simp add: sample_stats_lib_def)
  from hypothesis_test_dispatch[OF g2, of sample_stats_lib]
  have second: "test_pair sample_stats_lib group_col height_col = None"
    by simp
  from hypothesis_test_dispatch[OF g3, of sample_stats_lib]
  have third: "test_pair sample_stats_lib level_col weight_col =
        Some (TestEntry ''t-test'' (- 1) (1 / 100) True 2)"
    by (simp add: sample_stats_lib_def)
  from g1 g2 g3 c n first second third show ?thesis by simp
qed

subsection \<open>The Dataset is left as it was\<close>

lemma statistical_analysis_heap: "heap (snd (statistical_analysis st df self)) = heap self"
  by (simp add: statistical_analysis_def Let_def split: sum.splits)

lemma clustering_analysis_heap:
  "a < next_free self \<Longrightarrow> heap (snd (clustering_analysis sk df n self)) a = heap self a"
  by (simp add: clustering_analysis_def new_frame_def Let_def split: sum.splits)

lemma clustering_analysis_copy:
  "2 \<le> length (columns (select_dtypes [Number] (heap self df))) \<Longrightarrow>
     heap (snd (clustering_analysis sk df n self)) (next_free self) =
       fillna_mean (getitem_cols (heap self df) (columns (select_dtypes [Number] (heap self df))))"
  by (simp add: clustering_analysis_def new_frame_def Let_def split: sum.splits)

lemma feature_importance_analysis_heap:
  "a < next_free self \<Longrightarrow>
     heap (snd (feature_importance_analysis ml df target_column task_type self)) a = heap self a"
  by (simp add: feature_importance_analysis_def new_frame_def Let_def split: sum.splits prod.splits)

text \<open>
  Claim C9. After \<^verbatim>\<open>statistical_analysis\<close>, \<^verbatim>\<open>clustering_analysis\<close> or
  \<^verbatim>\<open>feature_importance_analysis\<close> the Dataset object handed in is what it was before;
  the mean-filled matrix of the cluster analysis is a new object.
\<close>

theorem dataset_not_mutated:
  assumes "df < next_free self"
  shows "heap (snd (statistical_analysis st df self)) df = heap self df \<and>
         heap (snd (clustering_analysis sk df n self)) df = heap self df \<and>
         heap (snd (feature_importance_analysis ml df target_column task_type self)) df = heap self df \<and>
         (2 \<le> length (columns (select_dtypes [Number] (heap self df))) \<longrightarrow>
            heap (snd (clustering_analysis sk df n self)) (next_free self) =
              fillna_mean (getitem_cols (heap self df) (columns (select_dtypes [Number] (heap self df)))))"
  using assms
  by (simp add: statistical_analysis_heap clustering_analysis_heap clustering_analysis_copy
        feature_importance_analysis_heap)

theorem dataset_not_mutated_witness:
  "0 < next_free sample_world \<and>
   heap (snd (statistical_analysis sample_stats_lib 0 sample_world)) 0 = sample_frame \<and>
   heap (snd (clustering_analysis sample_cluster_lib 0 None sample_world)) 0 = sample_frame \<and>
   heap (snd (feature_importance_analysis sample_forest_lib 0 ''group'' ''auto'' sample_world)) 0 = sample_frame \<and>
   heap (snd (clustering_analysis sample_cluster_lib 0 None sample_world)) 3 =
     \<lparr>cols = [\<lparr>col_name = ''height'', col_dtype = Number,
                col_cells = [Num 1, Num 4, Num 3, Num 4, Num 8], col_categories = []\<rparr>, weight_col],
      nrows = 5\<rparr>"
proof -
  have alloc: "0 < next_free sample_world" by (simp add: sample_world_def)
  have h: "heap sample_world 0 = sample_frame" and f: "next_free sample_world = 3"
    by (simp_all add: sample_world_def)
  from dataset_not_mutated[OF alloc, of sample_stats_lib sample_cluster_lib None sample_forest_lib "''group''" "''auto''"]
  show ?thesis
    using alloc by (simp add: h f sample_numeric_columns[unfolded h] sample_matrix[unfolded h])
qed

end
